theory Spec2Isabelle
  imports Main
begin


section \<open>JSON values and the JavaScript operations the code applies to them\<close>

text \<open>
  Parsed documents, request payloads and response bodies are JSON trees. An object is the
  association list of its properties, numbers are integers, strings are lists of
  characters (bytes of UTF-8). A value that may be \<^verbatim>\<open>undefined\<close> is a
  \<open>json option\<close>, with \<open>None\<close> for \<^verbatim>\<open>undefined\<close>.
\<close>

datatype json =
    JNull
  | JBool bool
  | JNum int
  | JStr string
  | JArr "json list"
  | JObj "(string \<times> json) list"

text \<open>
  A key taken from data can name a member that a value inherits from its prototype
  (\<^verbatim>\<open>constructor\<close>, \<^verbatim>\<open>toString\<close>, \<^verbatim>\<open>__proto__\<close>, ...). Such a
  member is a function or an object of the JavaScript library, or a primitive value
  (the \<^verbatim>\<open>length\<close> of \<^verbatim>\<open>Array.prototype\<close> is 0, the prototype of
  \<^verbatim>\<open>Object.prototype\<close> is \<^verbatim>\<open>null\<close>). The library is not part of the
  program: its objects are names here, and what they hold is a parameter.
\<close>

datatype builtin = Builtin_function string | Builtin_object string

datatype primitive = PNull | PBool bool | PNum int | PStr string

fun json_of :: "primitive \<Rightarrow> json" where
  "json_of PNull = JNull"
| "json_of (PBool b) = JBool b"
| "json_of (PNum n) = JNum n"
| "json_of (PStr s) = JStr s"

text \<open>The values the program handles: the nodes of documents, and what the library
  hands out.\<close>

datatype js_value = Node json | Builtin builtin

definition value_of :: "builtin + primitive \<Rightarrow> js_value" where
  "value_of m = (case m of Inl b \<Rightarrow> Builtin b | Inr p \<Rightarrow> Node (json_of p))"

text \<open>Numbers that are results of arithmetic: an integer, or one of the three special
  values.\<close>

datatype number = Finite int | NaN | PosInfinity | NegInfinity

text \<open>
  The JavaScript library as far as the program depends on it and the program text does
  not determine it: which patterns \<^verbatim>\<open>new RegExp\<close> accepts, how a string reads
  as a number, what a value inherits under a key it does not own, what a library
  object holds under a key, and the text \<^verbatim>\<open>String\<close> makes of a library
  object.
\<close>

record engine =
  regexp_accepts :: "string \<Rightarrow> bool"
  string_to_number :: "string \<Rightarrow> number"
  inherited_member :: "json \<Rightarrow> string \<Rightarrow> (builtin + primitive) option"
  builtin_member :: "builtin \<Rightarrow> string \<Rightarrow> (builtin + primitive) option"
  builtin_to_string :: "builtin \<Rightarrow> string"

text \<open>Everything the code can throw. The message texts are replaced by constructors
  that carry the data the message is built from.\<close>

datatype thrown =
    AxiosRejected "(nat \<times> json) option" bool
      \<comment> \<open>an axios error: \<^verbatim>\<open>error.response\<close> (status and data), and whether \<^verbatim>\<open>error.request\<close> is set\<close>
  | TypeError
  | URIError
  | SyntaxError
  | RangeError
  | Err_InvalidTokenResponse
      \<comment> \<open>\<^verbatim>\<open>Received invalid token response from /token endpoint.\<close>\<close>
  | Err_Token nat string
      \<comment> \<open>\<^verbatim>\<open>Token Error (Status ...): ...\<close> with the status and the details\<close>
  | Err_TokenNetwork
      \<comment> \<open>\<^verbatim>\<open>Network Error: No response received from MCP /token endpoint.\<close>\<close>
  | Err_TokenRequest thrown
      \<comment> \<open>\<^verbatim>\<open>Token Request Error: ...\<close> around the message of the error caught\<close>
  | Err_McpApi nat string bool
      \<comment> \<open>\<^verbatim>\<open>MCP API Error (Status ...): ...\<close> with the status and the details; the flag is the suffix added on a 401\<close>
  | Err_McpNetwork
      \<comment> \<open>\<^verbatim>\<open>Network Error: No response received from MCP API.\<close>\<close>
  | Err_RequestSetup thrown
      \<comment> \<open>\<^verbatim>\<open>Request Setup Error: ...\<close> around the message of the error caught\<close>
  | Err_Required string
      \<comment> \<open>\<^verbatim>\<open>... is required for ...\<close>\<close>
  | Err_Missing string
      \<comment> \<open>the executor's \<^verbatim>\<open>... is missing for tool ...\<close>\<close>
  | Err_Auth
      \<comment> \<open>whatever the caller's \<^verbatim>\<open>getAuthenticationHeaders\<close> throws\<close>

section \<open>The HTTP transport\<close>

text \<open>
  What the network does with one request is an input of the model: a response with a
  status and a body, no response at all, or a request that could not be set up.
  \<open>axios\<close> is the library call with its default \<^verbatim>\<open>validateStatus\<close>:
  it resolves on a status from 200 to 299 and rejects otherwise, with
  \<^verbatim>\<open>error.response\<close> set when a response arrived and only
  \<^verbatim>\<open>error.request\<close> set when none did.
\<close>

datatype http_reply = Reply nat json | NoReply | NotSent

definition axios :: "http_reply \<Rightarrow> thrown + (nat \<times> json)" where
  "axios r =
     (case r of
        Reply status body \<Rightarrow>
          if 200 \<le> status \<and> status < 300 then Inr (status, body)
          else Inl (AxiosRejected (Some (status, body)) True)
      | NoReply \<Rightarrow> Inl (AxiosRejected None True)
      | NotSent \<Rightarrow> Inl (AxiosRejected None False))"

record http_request =
  req_method :: string
  req_url :: string
  req_headers :: "(string \<times> string) list"
  req_auth :: "(string \<times> string) option"
  req_params :: "(string \<times> js_value) list"
  req_data :: "json option"


section \<open>JavaScript operations on JSON values\<close>

text \<open>
  Property access, \<^verbatim>\<open>in\<close>, \<^verbatim>\<open>for ... in\<close> and \<^verbatim>\<open>for ... of\<close>
  on the values a parsed document holds. The own properties of a value are the fields
  of an object, and the indices and \<^verbatim>\<open>length\<close> of an array or a string. The
  list of an object holds each key once, in the order in which JavaScript enumerates
  the keys.
\<close>

fun string_of_nat :: "nat \<Rightarrow> string" where
  "string_of_nat n =
     (if n < 10 then [''0123456789'' ! n]
      else string_of_nat (n div 10) @ [''0123456789'' ! (n mod 10)])"

declare string_of_nat.simps [simp del]

definition string_of_int :: "int \<Rightarrow> string" where
  "string_of_int i = (if i < 0 then CHR ''-'' # string_of_nat (nat (- i)) else string_of_nat (nat i))"

definition is_digit :: "char \<Rightarrow> bool" where
  "is_digit c = (48 \<le> (of_char c :: nat) \<and> (of_char c :: nat) \<le> 57)"

definition own_props :: "json \<Rightarrow> (string \<times> json) list" where
  "own_props v =
     (case v of
        JObj kvs \<Rightarrow> kvs
      | JArr xs \<Rightarrow>
          zip (map string_of_nat [0 ..< length xs]) xs @ [(''length'', JNum (int (length xs)))]
      | JStr s \<Rightarrow>
          zip (map string_of_nat [0 ..< length s]) (map (\<lambda>c. JStr [c]) s)
            @ [(''length'', JNum (int (length s)))]
      | _ \<Rightarrow> [])"

text \<open>
  \<^verbatim>\<open>v.k\<close> for a key \<open>k\<close> that the program text writes out
  (\<^verbatim>\<open>type\<close>, \<^verbatim>\<open>properties\<close>, \<^verbatim>\<open>$ref\<close>, \<^verbatim>\<open>message\<close>,
  ...). None of these keys names a member of a prototype of the JavaScript library, so
  the value is the own property, or \<^verbatim>\<open>undefined\<close>. \<open>get_prop\<close> is the
  access that throws a TypeError on \<^verbatim>\<open>null\<close> and \<^verbatim>\<open>undefined\<close>,
  \<open>js_prop\<close> the one whose receiver is known to be neither, \<open>opt_prop\<close> is
  \<^verbatim>\<open>v?.k\<close>.
\<close>

definition get_prop :: "json option \<Rightarrow> string \<Rightarrow> thrown + json option" where
  "get_prop v k =
     (case v of
        None \<Rightarrow> Inl TypeError
      | Some JNull \<Rightarrow> Inl TypeError
      | Some w \<Rightarrow> Inr (map_of (own_props w) k))"

definition js_prop :: "json \<Rightarrow> string \<Rightarrow> json option" where
  "js_prop v k = map_of (own_props v) k"

definition opt_prop :: "json option \<Rightarrow> string \<Rightarrow> json option" where
  "opt_prop v k = (case v of None \<Rightarrow> None | Some JNull \<Rightarrow> None | Some w \<Rightarrow> js_prop w k)"

text \<open>
  \<^verbatim>\<open>v[k]\<close> for a key \<open>k\<close> that comes from data, on a value that is neither
  \<^verbatim>\<open>null\<close> nor \<^verbatim>\<open>undefined\<close>: the own property, or else what the value
  inherits under that key. \<open>None\<close> is also the answer of \<^verbatim>\<open>k in v\<close>.
\<close>

definition member :: "engine \<Rightarrow> json \<Rightarrow> string \<Rightarrow> js_value option" where
  "member en v k =
     (case map_of (own_props v) k of
        Some w \<Rightarrow> Some (Node w)
      | None \<Rightarrow> map_option value_of (inherited_member en v k))"

text \<open>\<^verbatim>\<open>typeof v === 'object'\<close> holds of objects, arrays and
  \<^verbatim>\<open>null\<close>.\<close>

definition typeof_object :: "json \<Rightarrow> bool" where
  "typeof_object v = (case v of JNull \<Rightarrow> True | JArr _ \<Rightarrow> True | JObj _ \<Rightarrow> True | _ \<Rightarrow> False)"

text \<open>\<^verbatim>\<open>k in v\<close> for a key that the program text writes out: a TypeError unless
  the right operand is an object or an array.\<close>

definition has_prop :: "json option \<Rightarrow> string \<Rightarrow> thrown + bool" where
  "has_prop v k =
     (case v of
        Some (JObj kvs) \<Rightarrow> Inr (k \<in> set (map fst kvs))
      | Some (JArr xs) \<Rightarrow> Inr (k \<in> set (map fst (own_props (JArr xs))))
      | _ \<Rightarrow> Inl TypeError)"

text \<open>\<^verbatim>\<open>for (k in v)\<close>: the enumerable keys in the order of enumeration; nothing
  for a number, a boolean, \<^verbatim>\<open>null\<close> or \<^verbatim>\<open>undefined\<close>. The prototypes of
  the library have no enumerable member.\<close>

definition for_in :: "json option \<Rightarrow> string list" where
  "for_in v =
     (case v of
        Some (JObj kvs) \<Rightarrow> map fst kvs
      | Some (JArr xs) \<Rightarrow> map string_of_nat [0 ..< length xs]
      | Some (JStr s) \<Rightarrow> map string_of_nat [0 ..< length s]
      | _ \<Rightarrow> [])"

text \<open>\<^verbatim>\<open>for (x of v)\<close>: the elements of an array, the characters of a string, a
  TypeError for everything else.\<close>

definition for_of :: "json option \<Rightarrow> thrown + json list" where
  "for_of v =
     (case v of
        Some (JArr xs) \<Rightarrow> Inr xs
      | Some (JStr s) \<Rightarrow> Inr (map (\<lambda>c. JStr [c]) s)
      | _ \<Rightarrow> Inl TypeError)"

text \<open>The type guard \<^verbatim>\<open>isReferenceObject\<close>, as a truth value.\<close>

definition isReferenceObject :: "json option \<Rightarrow> bool" where
  "isReferenceObject obj =
     (case obj of
        Some (JObj kvs) \<Rightarrow> ''$ref'' \<in> set (map fst kvs)
      | _ \<Rightarrow> False)"

text \<open>JavaScript truthiness of a value that may be \<^verbatim>\<open>undefined\<close>, and
  \<^verbatim>\<open>a || b\<close>.\<close>

definition truthy :: "json option \<Rightarrow> bool" where
  "truthy v =
     (case v of
        None \<Rightarrow> False
      | Some JNull \<Rightarrow> False
      | Some (JBool b) \<Rightarrow> b
      | Some (JNum n) \<Rightarrow> n \<noteq> 0
      | Some (JStr s) \<Rightarrow> s \<noteq> []
      | Some (JArr _) \<Rightarrow> True
      | Some (JObj _) \<Rightarrow> True)"

definition js_or :: "json option \<Rightarrow> json option \<Rightarrow> json option" where
  "js_or a b = (if truthy a then a else b)"

subsection \<open>Conversion to a string\<close>

fun join :: "string \<Rightarrow> string list \<Rightarrow> string" where
  "join sep [] = []"
| "join sep [x] = x"
| "join sep (x # y # ys) = x @ sep @ join sep (y # ys)"

text \<open>The first error of a list of results, or all the values.\<close>

fun sequence :: "('e + 'a) list \<Rightarrow> 'e + 'a list" where
  "sequence [] = Inr []"
| "sequence (Inl e # rs) = Inl e"
| "sequence (Inr x # rs) = (case sequence rs of Inl e \<Rightarrow> Inl e | Inr xs \<Rightarrow> Inr (x # xs))"

text \<open>
  \<^verbatim>\<open>String(v)\<close>, which a template literal applies to what it interpolates. An
  integer is printed in decimal, as JavaScript prints the integers up to \<open>2\<^sup>5\<^sup>3\<close>. An
  array is the join of its elements, \<^verbatim>\<open>null\<close> counting as the empty string. An
  object is \<^verbatim>\<open>[object Object]\<close> through the \<^verbatim>\<open>toString\<close> it inherits;
  when it has a property \<^verbatim>\<open>toString\<close> of its own, that property is no function,
  no other conversion gives a primitive value, and the conversion throws a TypeError.
\<close>

fun js_String :: "json \<Rightarrow> thrown + string" where
  "js_String JNull = Inr ''null''"
| "js_String (JBool b) = Inr (if b then ''true'' else ''false'')"
| "js_String (JNum n) = Inr (string_of_int n)"
| "js_String (JStr s) = Inr s"
| "js_String (JArr xs) =
     (case sequence (map (\<lambda>x. if x = JNull then Inr [] else js_String x) xs) of
        Inl e \<Rightarrow> Inl e
      | Inr ss \<Rightarrow> Inr (join '','' ss))"
| "js_String (JObj kvs) =
     (if ''toString'' \<in> set (map fst kvs) then Inl TypeError else Inr ''[object Object]'')"

text \<open>The same for a value that may be \<^verbatim>\<open>undefined\<close>.\<close>

definition js_String_opt :: "json option \<Rightarrow> thrown + string" where
  "js_String_opt v = (case v of None \<Rightarrow> Inr ''undefined'' | Some w \<Rightarrow> js_String w)"

text \<open>A property key: \<^verbatim>\<open>o[k]\<close> converts \<open>k\<close> to a string.\<close>

definition property_key :: "json option \<Rightarrow> thrown + string" where
  "property_key k = js_String_opt k"

text \<open>
  \<^verbatim>\<open>o[k] = v\<close> on an object the program has built, for an object or a string
  \<open>v\<close>: the property is set or added, except under the key \<^verbatim>\<open>__proto__\<close>,
  where the assignment reaches the setter of \<^verbatim>\<open>Object.prototype\<close> and the object
  gets no property. The list is in the order of insertion; JavaScript enumerates keys
  that are array indices before the others.
\<close>

fun update_field :: "string \<Rightarrow> 'a \<Rightarrow> (string \<times> 'a) list \<Rightarrow> (string \<times> 'a) list" where
  "update_field k v [] = [(k, v)]"
| "update_field k v ((k', v') # kvs) =
     (if k' = k then (k, v) # kvs else (k', v') # update_field k v kvs)"

definition assign_property :: "string \<Rightarrow> 'a \<Rightarrow> (string \<times> 'a) list \<Rightarrow> (string \<times> 'a) list" where
  "assign_property k v shape = (if k = ''__proto__'' then shape else update_field k v shape)"

subsection \<open>\<^verbatim>\<open>JSON.stringify\<close>\<close>

definition escape_char :: "char \<Rightarrow> string" where
  "escape_char c =
     (let n = (of_char c :: nat)
      in if c = CHR 0x22 then [CHR 0x5C, CHR 0x22]
         else if c = CHR 0x5C then [CHR 0x5C, CHR 0x5C]
         else if n = 8 then [CHR 0x5C, CHR ''b'']
         else if n = 9 then [CHR 0x5C, CHR ''t'']
         else if n = 10 then [CHR 0x5C, CHR ''n'']
         else if n = 12 then [CHR 0x5C, CHR ''f'']
         else if n = 13 then [CHR 0x5C, CHR ''r'']
         else if n < 32 then [CHR 0x5C, CHR ''u'', CHR ''0'', CHR ''0'',
                              ''0123456789abcdef'' ! (n div 16), ''0123456789abcdef'' ! (n mod 16)]
         else [c])"

definition quote_string :: "string \<Rightarrow> string" where
  "quote_string s = [CHR 0x22] @ concat (map escape_char s) @ [CHR 0x22]"

text \<open>Integers are printed in decimal, as for \<open>js_String\<close>.\<close>

fun JSON_stringify :: "json \<Rightarrow> string" where
  "JSON_stringify JNull = ''null''"
| "JSON_stringify (JBool b) = (if b then ''true'' else ''false'')"
| "JSON_stringify (JNum n) = string_of_int n"
| "JSON_stringify (JStr s) = quote_string s"
| "JSON_stringify (JArr xs) = ''['' @ join '','' (map JSON_stringify xs) @ '']''"
| "JSON_stringify (JObj kvs) =
     ''{'' @ join '','' (map (\<lambda>kv. quote_string (fst kv) @ '':'' @ JSON_stringify (snd kv)) kvs) @ ''}''"

text \<open>The integers that JavaScript holds exactly and prints in decimal: those of
  magnitude up to \<open>2\<^sup>5\<^sup>3 - 1\<close>.\<close>

definition safe_integer :: "int \<Rightarrow> bool" where
  "safe_integer n = (\<bar>n\<bar> \<le> 9007199254740991)"

fun safe_numbers :: "json \<Rightarrow> bool" where
  "safe_numbers (JNum n) = safe_integer n"
| "safe_numbers (JArr xs) = list_all safe_numbers xs"
| "safe_numbers (JObj kvs) = list_all (\<lambda>kv. safe_numbers (snd kv)) kvs"
| "safe_numbers _ = True"

subsection \<open>Conversion to a number, and arithmetic\<close>

text \<open>
  \<^verbatim>\<open>Number(v)\<close>, which \<^verbatim>\<open>*\<close> and \<^verbatim>\<open>>\<close> apply to their operands.
  An array or an object is converted to a string first. How a string reads as a number
  is the engine's business.
\<close>

definition to_number :: "engine \<Rightarrow> json \<Rightarrow> thrown + number" where
  "to_number en v =
     (case v of
        JNull \<Rightarrow> Inr (Finite 0)
      | JBool b \<Rightarrow> Inr (Finite (if b then 1 else 0))
      | JNum n \<Rightarrow> Inr (Finite n)
      | JStr s \<Rightarrow> Inr (string_to_number en s)
      | _ \<Rightarrow> (case js_String v of Inl e \<Rightarrow> Inl e | Inr s \<Rightarrow> Inr (string_to_number en s)))"

text \<open>Arithmetic on integers is exact here; JavaScript rounds a result beyond
  \<open>2\<^sup>5\<^sup>3\<close> to the nearest number it can hold.\<close>

definition number_times :: "number \<Rightarrow> int \<Rightarrow> number" where
  "number_times x k =
     (case x of
        Finite n \<Rightarrow> Finite (n * k)
      | NaN \<Rightarrow> NaN
      | PosInfinity \<Rightarrow> (if k > 0 then PosInfinity else if k < 0 then NegInfinity else NaN)
      | NegInfinity \<Rightarrow> (if k > 0 then NegInfinity else if k < 0 then PosInfinity else NaN))"

definition number_plus :: "int \<Rightarrow> number \<Rightarrow> number" where
  "number_plus k x = (case x of Finite n \<Rightarrow> Finite (k + n) | _ \<Rightarrow> x)"

text \<open>\<^verbatim>\<open>k < x\<close> and \<^verbatim>\<open>x > k\<close> for an integer \<open>k\<close>.\<close>

definition less_number :: "int \<Rightarrow> number \<Rightarrow> bool" where
  "less_number k x = (case x of Finite n \<Rightarrow> k < n | PosInfinity \<Rightarrow> True | _ \<Rightarrow> False)"

text \<open>Truthiness of a number that may be \<^verbatim>\<open>null\<close>.\<close>

definition truthy_number :: "number option \<Rightarrow> bool" where
  "truthy_number t =
     (case t of
        None \<Rightarrow> False
      | Some (Finite n) \<Rightarrow> n \<noteq> 0
      | Some NaN \<Rightarrow> False
      | Some _ \<Rightarrow> True)"

subsection \<open>\<^verbatim>\<open>decodeURIComponent\<close> and the string operations of the resolver\<close>

definition hex_val :: "char \<Rightarrow> nat option" where
  "hex_val c =
     (let n = (of_char c :: nat)
      in if 48 \<le> n \<and> n \<le> 57 then Some (n - 48)
         else if 65 \<le> n \<and> n \<le> 70 then Some (n - 55)
         else if 97 \<le> n \<and> n \<le> 102 then Some (n - 87)
         else None)"

text \<open>One \<^verbatim>\<open>%XX\<close> escape at the head of the input: the byte and the rest.\<close>

fun escape_byte :: "string \<Rightarrow> (nat \<times> string) option" where
  "escape_byte (p # a # b # rest) =
     (if p = CHR ''%'' then
        (case (hex_val a, hex_val b) of
           (Some h, Some l) \<Rightarrow> Some (16 * h + l, rest)
         | _ \<Rightarrow> None)
      else None)"
| "escape_byte _ = None"

text \<open>The escapes that continue a multi-byte sequence: \<open>n\<close> of them.\<close>

fun escape_bytes :: "nat \<Rightarrow> string \<Rightarrow> (nat list \<times> string) option" where
  "escape_bytes 0 s = Some ([], s)"
| "escape_bytes (Suc n) s =
     (case escape_byte s of
        None \<Rightarrow> None
      | Some (b, rest) \<Rightarrow>
          (case escape_bytes n rest of
             None \<Rightarrow> None
           | Some (bs, rest') \<Rightarrow> Some (b # bs, rest')))"

text \<open>Well-formed UTF-8 sequences of two to four bytes (no overlong form, no surrogate,
  nothing above U+10FFFF).\<close>

definition utf8_tail :: "nat \<Rightarrow> bool" where
  "utf8_tail b = (128 \<le> b \<and> b \<le> 191)"

fun utf8_valid :: "nat list \<Rightarrow> bool" where
  "utf8_valid [a, b] = (194 \<le> a \<and> a \<le> 223 \<and> utf8_tail b)"
| "utf8_valid [a, b, c] =
     (utf8_tail c \<and>
      ((a = 224 \<and> 160 \<le> b \<and> b \<le> 191)
       \<or> (225 \<le> a \<and> a \<le> 236 \<and> utf8_tail b)
       \<or> (a = 237 \<and> 128 \<le> b \<and> b \<le> 159)
       \<or> (238 \<le> a \<and> a \<le> 239 \<and> utf8_tail b)))"
| "utf8_valid [a, b, c, d] =
     (utf8_tail c \<and> utf8_tail d \<and>
      ((a = 240 \<and> 144 \<le> b \<and> b \<le> 191)
       \<or> (241 \<le> a \<and> a \<le> 243 \<and> utf8_tail b)
       \<or> (a = 244 \<and> 128 \<le> b \<and> b \<le> 143)))"
| "utf8_valid _ = False"

text \<open>The number of bytes the leading byte announces (its leading one bits).\<close>

definition utf8_length :: "nat \<Rightarrow> nat" where
  "utf8_length b =
     (if b < 128 then 0 else if b < 192 then 1 else if b < 224 then 2
      else if b < 240 then 3 else if b < 248 then 4 else 5)"

function decodeURIComponent :: "string \<Rightarrow> thrown + string" where
  "decodeURIComponent [] = Inr []"
| "decodeURIComponent (c # cs) =
     (if c \<noteq> CHR ''%'' then
        (case decodeURIComponent cs of Inl e \<Rightarrow> Inl e | Inr r \<Rightarrow> Inr (c # r))
      else
        (case escape_byte (c # cs) of
           None \<Rightarrow> Inl URIError
         | Some (b, rest) \<Rightarrow>
             if b < 128 then
               (case decodeURIComponent (drop 2 cs) of
                  Inl e \<Rightarrow> Inl e
                | Inr r \<Rightarrow> Inr (char_of b # r))
             else if utf8_length b = 1 \<or> utf8_length b > 4 then Inl URIError
             else
               (case escape_bytes (utf8_length b - 1) (drop 2 cs) of
                  None \<Rightarrow> Inl URIError
                | Some (bs, rest') \<Rightarrow>
                    if \<not> utf8_valid (b # bs) then Inl URIError
                    else
                      (case decodeURIComponent (drop (2 + 3 * (utf8_length b - 1)) cs) of
                         Inl e \<Rightarrow> Inl e
                       | Inr r \<Rightarrow> Inr (map char_of (b # bs) @ r)))))"
  by pat_completeness auto
termination
  by (relation "measure length") auto

text \<open>\<^verbatim>\<open>s.split(sep)\<close> for a separator of one character.\<close>

fun split_on :: "char \<Rightarrow> string \<Rightarrow> string list" where
  "split_on sep [] = [[]]"
| "split_on sep (c # cs) =
     (if c = sep then [] # split_on sep cs
      else (case split_on sep cs of
              [] \<Rightarrow> [[c]]
            | w # ws \<Rightarrow> (c # w) # ws))"

text \<open>\<^verbatim>\<open>s.replace(/~d/g, r)\<close>: every occurrence of the tilde followed by the
  character \<open>d\<close>, from the left.\<close>

fun replace_tilde :: "char \<Rightarrow> char \<Rightarrow> string \<Rightarrow> string" where
  "replace_tilde d r (a # b # cs) =
     (if a = CHR ''~'' \<and> b = d then r # replace_tilde d r cs
      else a # replace_tilde d r (b # cs))"
| "replace_tilde d r cs = cs"

definition unescape_segment :: "string \<Rightarrow> string" where
  "unescape_segment segment =
     replace_tilde (CHR ''0'') (CHR ''~'') (replace_tilde (CHR ''1'') (CHR ''/'') segment)"

definition startsWith :: "string \<Rightarrow> string \<Rightarrow> bool" where
  "startsWith s p = (take (length p) s = p)"

section \<open>The MCP API client: token manager and spec cache\<close>

record cache_entry =
  content :: json
  expiry :: int

text \<open>The fields \<^verbatim>\<open>accessToken\<close> and \<^verbatim>\<open>tokenExpiry\<close> hold
  \<^verbatim>\<open>null\<close>, which is \<open>None\<close> here, or what the last exchange stored.\<close>

record McpApi =
  baseUrl :: string
  clientId :: string
  clientSecret :: string
  accessToken :: "json option"
  tokenExpiry :: "number option"
  specCache :: "string \<rightharpoonup> cache_entry"
  cacheTTL :: int

text \<open>The constructor, for the cache TTL it computes from the options: 300000 when the
  option is absent or negative, the option itself otherwise.\<close>

definition constructor_cacheTTL :: "int option \<Rightarrow> int" where
  "constructor_cacheTTL opt =
     (case opt of None \<Rightarrow> 300000 | Some t \<Rightarrow> if t < 0 then 300000 else t)"

definition McpApi_new :: "string \<Rightarrow> string \<Rightarrow> string \<Rightarrow> int option \<Rightarrow> McpApi" where
  "McpApi_new url cid secret ttl =
     \<lparr> baseUrl = url, clientId = cid, clientSecret = secret,
       accessToken = None, tokenExpiry = None,
       specCache = Map.empty, cacheTTL = constructor_cacheTTL ttl \<rparr>"

text \<open>
  What one call meets outside the client: the clock at the validity check, the reply of
  the token endpoint, the clock when that reply is processed, and the JavaScript
  engine.
\<close>

record token_env =
  now_check :: int
  token_reply :: http_reply
  now_store :: int
  runtime :: engine

definition token_request :: "McpApi \<Rightarrow> http_request" where
  "token_request s =
     \<lparr> req_method = ''POST'', req_url = baseUrl s @ ''/token'',
       req_headers = [(''Content-Type'', ''application/x-www-form-urlencoded''),
                      (''Accept'', ''application/json'')],
       req_auth = Some (clientId s, clientSecret s),
       req_params = [],
       req_data = Some (JStr ''grant_type=client_credentials'') \<rparr>"

text \<open>
  \<^verbatim>\<open>errorData?.message || errorData?.\<close>\<open>alt\<close>\<^verbatim>\<open> || JSON.stringify(errorData)\<close>:
  the details that go into the message of the error.
\<close>

definition error_details :: "json \<Rightarrow> string \<Rightarrow> json" where
  "error_details errorData alt =
     the (js_or (opt_prop (Some errorData) ''message'')
            (js_or (opt_prop (Some errorData) alt)
               (Some (JStr (JSON_stringify errorData)))))"

text \<open>The \<^verbatim>\<open>catch\<close> of the token exchange, after it has reset the token: the
  error it throws. The template literal that builds the message converts the details to
  a string, which can throw in its turn.\<close>

definition token_catch :: "thrown \<Rightarrow> thrown" where
  "token_catch err =
     (case err of
        AxiosRejected (Some (status, errorData)) _ \<Rightarrow>
          (case js_String (error_details errorData ''error_description'') of
             Inl e \<Rightarrow> e
           | Inr errorDetails \<Rightarrow> Err_Token status errorDetails)
      | AxiosRejected None True \<Rightarrow> Err_TokenNetwork
      | _ \<Rightarrow> Err_TokenRequest err)"

text \<open>
  What the \<^verbatim>\<open>try\<close> block makes of a response: the token and the expiry to
  store, or the exception. The token is any truthy value under
  \<^verbatim>\<open>access_token\<close>; the expiry is computed from any truthy value under
  \<^verbatim>\<open>expires_in\<close>, converted to a number by the multiplication, and is
  \<^verbatim>\<open>null\<close> otherwise.
\<close>

definition read_token :: "engine \<Rightarrow> int \<Rightarrow> json \<Rightarrow> thrown + (json \<times> number option)" where
  "read_token en now tokenData =
     (case get_prop (Some tokenData) ''access_token'' of
        Inl e \<Rightarrow> Inl e
      | Inr access_token \<Rightarrow>
          if \<not> truthy access_token then Inl Err_InvalidTokenResponse
          else if \<not> truthy (js_prop tokenData ''expires_in'') then Inr (the access_token, None)
          else
            (case to_number en (the (js_prop tokenData ''expires_in'')) of
               Inl e \<Rightarrow> Inl e
             | Inr seconds \<Rightarrow>
                 Inr (the access_token, Some (number_plus now (number_times seconds 1000)))))"

text \<open>The validity check: \<^verbatim>\<open>Date.now() < this.tokenExpiry - bufferSeconds * 1000\<close>
  for an expiry that is not \<^verbatim>\<open>null\<close>.\<close>

definition before_expiry :: "int \<Rightarrow> number \<Rightarrow> bool" where
  "before_expiry now x = less_number now (number_plus (- (30 * 1000)) x)"

text \<open>
  \<open>getValidAccessToken\<close> returns the token or the error thrown, the client after
  the call, and the requests it handed to axios.
\<close>

definition getValidAccessToken ::
  "McpApi \<Rightarrow> 'a token_env_scheme \<Rightarrow> (thrown + json) \<times> McpApi \<times> http_request list" where
  "getValidAccessToken s e =
     (if truthy (accessToken s) \<and> truthy_number (tokenExpiry s)
         \<and> before_expiry (now_check e) (the (tokenExpiry s))
      then (Inr (the (accessToken s)), s, [])
      else
        (case (case axios (token_reply e) of
                 Inl err \<Rightarrow> Inl err
               | Inr (status, tokenData) \<Rightarrow> read_token (runtime e) (now_store e) tokenData) of
           Inr (token, expires) \<Rightarrow>
             (Inr token, s\<lparr> accessToken := Some token, tokenExpiry := expires \<rparr>, [token_request s])
         | Inl err \<Rightarrow>
             (Inl (token_catch err),
              s\<lparr> accessToken := None, tokenExpiry := None \<rparr>,
              [token_request s])))"

text \<open>\<open>makeRequest\<close> meets, after the token manager, the reply of the MCP API.\<close>

record request_env = token_env +
  api_reply :: http_reply

definition api_request :: "McpApi \<Rightarrow> string \<Rightarrow> string \<Rightarrow> string \<Rightarrow> json option \<Rightarrow> http_request" where
  "api_request s token endpoint meth data =
     \<lparr> req_method = meth, req_url = baseUrl s @ endpoint,
       req_headers =
         [(''Authorization'', ''Bearer '' @ token), (''Accept'', ''application/json'')]
         @ (if truthy data \<and> (meth = ''POST'' \<or> meth = ''PUT'')
            then [(''Content-Type'', ''application/json'')] else []),
       req_auth = None,
       req_params = [],
       req_data = (if truthy data then data else None) \<rparr>"

text \<open>
  The \<^verbatim>\<open>catch\<close> of \<open>makeRequest\<close> for an error that carries a response:
  the message is built first, details included, and only then does a status of 401
  reset the token. The result is the error thrown and the client it leaves.
\<close>

definition api_catch :: "McpApi \<Rightarrow> nat \<Rightarrow> json \<Rightarrow> thrown \<times> McpApi" where
  "api_catch s status errorData =
     (case js_String (error_details errorData ''error'') of
        Inl e \<Rightarrow> (e, s)
      | Inr details \<Rightarrow>
          (Err_McpApi status details (status = 401),
           if status = 401 then s\<lparr> accessToken := None, tokenExpiry := None \<rparr> else s))"

text \<open>
  \<open>makeRequest\<close>. The \<^verbatim>\<open>try\<close> block holds the call of the token manager
  and the template literal of the \<^verbatim>\<open>Authorization\<close> header, so what they throw
  is caught with the rest. The headers of the response only choose between two branches
  that both return the body.
\<close>

definition makeRequest ::
  "McpApi \<Rightarrow> string \<Rightarrow> string \<Rightarrow> json option \<Rightarrow> 'a request_env_scheme
     \<Rightarrow> (thrown + json) \<times> McpApi \<times> http_request list" where
  "makeRequest s endpoint meth data e =
     (case getValidAccessToken s e of
        (Inl err, s1, reqs) \<Rightarrow> (Inl (Err_RequestSetup err), s1, reqs)
      | (Inr token, s1, reqs) \<Rightarrow>
          (case js_String token of
             Inl err \<Rightarrow> (Inl (Err_RequestSetup err), s1, reqs)
           | Inr bearer \<Rightarrow>
               (let sent = reqs @ [api_request s1 bearer endpoint meth data] in
                case axios (api_reply e) of
                  Inr (status, body) \<Rightarrow> (Inr body, s1, sent)
                | Inl (AxiosRejected (Some (status, errorData)) rq) \<Rightarrow>
                    (Inl (fst (api_catch s1 status errorData)),
                     snd (api_catch s1 status errorData), sent)
                | Inl (AxiosRejected None True) \<Rightarrow> (Inl Err_McpNetwork, s1, sent)
                | Inl err \<Rightarrow> (Inl (Err_RequestSetup err), s1, sent))))"

subsection \<open>\<^verbatim>\<open>encodeURIComponent\<close>\<close>

text \<open>Strings are byte strings (UTF-8), so every character outside the unreserved set
  becomes one \<^verbatim>\<open>%XX\<close> escape with upper-case hexadecimal digits.\<close>

definition is_alnum :: "char \<Rightarrow> bool" where
  "is_alnum c =
     (let n = (of_char c :: nat)
      in (97 \<le> n \<and> n \<le> 122) \<or> (65 \<le> n \<and> n \<le> 90) \<or> (48 \<le> n \<and> n \<le> 57))"

definition uri_unreserved :: "char \<Rightarrow> bool" where
  "uri_unreserved c = (is_alnum c \<or> c \<in> set (''-_.!~*()'' @ [CHR 0x27]))"

definition hex_digit :: "nat \<Rightarrow> char" where
  "hex_digit d = ''0123456789ABCDEF'' ! d"

definition encodeURIComponent :: "string \<Rightarrow> string" where
  "encodeURIComponent s =
     concat (map (\<lambda>c. if uri_unreserved c then [c]
                       else [CHR ''%'', hex_digit ((of_char c :: nat) div 16),
                             hex_digit ((of_char c :: nat) mod 16)]) s)"

subsection \<open>Spec content and its cache\<close>

definition getSpecContent ::
  "McpApi \<Rightarrow> string \<Rightarrow> string \<Rightarrow> 'a request_env_scheme
     \<Rightarrow> (thrown + json) \<times> McpApi \<times> http_request list" where
  "getSpecContent s productName specPath e =
     (if productName = [] then (Inl (Err_Required ''productName''), s, [])
      else if specPath = [] then (Inl (Err_Required ''specPath''), s, [])
      else makeRequest s (''/products/'' @ encodeURIComponent productName @ ''/specs/'' @ specPath)
             ''GET'' None e)"

text \<open>The cache reads the clock once at the lookup and once more when it stores.\<close>

record cache_env = request_env +
  now_lookup :: int
  now_cached :: int

definition cacheKey :: "string \<Rightarrow> string \<Rightarrow> string" where
  "cacheKey productName specPath = productName @ ''::'' @ specPath"

text \<open>The times a \<^verbatim>\<open>Date\<close> can hold: up to 8.64e15 milliseconds from the epoch
  either way. \<^verbatim>\<open>toISOString\<close> throws a RangeError on any other.\<close>

definition valid_date :: "int \<Rightarrow> bool" where
  "valid_date t = (\<bar>t\<bar> \<le> 8640000000000000)"

text \<open>
  \<open>getSpecContentWithCache\<close>. After it has stored the entry, the code logs the
  expiry as an ISO date; when the expiry is no valid date that throws, and the call
  raises the RangeError with the entry stored.
\<close>

definition getSpecContentWithCache ::
  "McpApi \<Rightarrow> string \<Rightarrow> string \<Rightarrow> 'a cache_env_scheme
     \<Rightarrow> (thrown + json) \<times> McpApi \<times> http_request list" where
  "getSpecContentWithCache s productName specPath e =
     (let k = cacheKey productName specPath;
          cachedEntry = (if cacheTTL s > 0 then specCache s k else None);
          hit = (case cachedEntry of Some en \<Rightarrow> now_lookup e < expiry en | None \<Rightarrow> False)
      in if hit then (Inr (content (the cachedEntry)), s, [])
         else
           (let s1 = (if cachedEntry \<noteq> None then s\<lparr> specCache := (specCache s)(k := None) \<rparr> else s)
            in case getSpecContent s1 productName specPath e of
                 (Inl err, s2, reqs) \<Rightarrow> (Inl err, s2, reqs)
               | (Inr c, s2, reqs) \<Rightarrow>
                   if cacheTTL s2 > 0
                   then (if valid_date (now_cached e + cacheTTL s2) then Inr c else Inl RangeError,
                         s2\<lparr> specCache :=
                               (specCache s2)(k \<mapsto> \<lparr> content = c, expiry = now_cached e + cacheTTL s2 \<rparr>) \<rparr>,
                         reqs)
                   else (Inr c, s2, reqs)))"

text \<open>The requests of a trace that went to the MCP API (the token exchange is a POST).\<close>

definition api_calls :: "http_request list \<Rightarrow> http_request list" where
  "api_calls reqs = filter (\<lambda>r. req_method r = ''GET'') reqs"

text \<open>Consecutive calls of \<open>getValidAccessToken\<close>, each in its own environment, with
  the client handed on from one call to the next: the outcome and the requests of each
  call.\<close>

fun token_calls :: "McpApi \<Rightarrow> token_env list \<Rightarrow> ((thrown + json) \<times> http_request list) list" where
  "token_calls s [] = []"
| "token_calls s (e # es) =
     (fst (getValidAccessToken s e), snd (snd (getValidAccessToken s e)))
       # token_calls (fst (snd (getValidAccessToken s e))) es"

text \<open>A reply of the token endpoint that brings no lifetime: no truthy
  \<^verbatim>\<open>expires_in\<close> in its body.\<close>

definition no_lifetime :: "http_reply \<Rightarrow> bool" where
  "no_lifetime r =
     (case r of Reply status body \<Rightarrow> \<not> truthy (opt_prop (Some body) ''expires_in'') | _ \<Rightarrow> True)"

section \<open>The sanitizer of method names\<close>

text \<open>The characters of \<^verbatim>\<open>[a-zA-Z0-9_]\<close>.\<close>

definition is_word :: "char \<Rightarrow> bool" where
  "is_word c = (is_alnum c \<or> c = CHR ''_'')"


text \<open>\<^verbatim>\<open>.replace(/[^a-zA-Z0-9_]+/g, '_')\<close>: from the left, every longest run of
  characters outside the class becomes one underscore.\<close>

function replace_non_word :: "string \<Rightarrow> string" where
  "replace_non_word [] = []"
| "replace_non_word (c # cs) =
     (if is_word c then c # replace_non_word cs
      else CHR ''_'' # replace_non_word (dropWhile (\<lambda>x. \<not> is_word x) cs))"
  by pat_completeness auto
termination
  by (relation "measure length") (auto simp add: length_dropWhile_le less_Suc_eq_le)

text \<open>\<^verbatim>\<open>.replace(/^_+|_+$/g, '')\<close>: the underscores at the start and those at the
  end go.\<close>

definition trim_underscores :: "string \<Rightarrow> string" where
  "trim_underscores s =
     rev (dropWhile (\<lambda>x. x = CHR ''_'') (rev (dropWhile (\<lambda>x. x = CHR ''_'') s)))"

definition sanitizeForMethodName :: "string \<Rightarrow> string" where
  "sanitizeForMethodName input = trim_underscores (replace_non_word input)"


section \<open>The reference resolver\<close>

text \<open>
  The loop of \<open>resolveReference\<close> over the segments of the pointer. \<open>Inl\<close> is
  an exception on its way to the \<^verbatim>\<open>catch\<close>; \<open>Inr\<close> is the value of
  \<^verbatim>\<open>current\<close> when the loop ends, or \<^verbatim>\<open>null\<close> where the loop
  returns early. The test \<^verbatim>\<open>decodedSegment in current\<close> and the access
  \<^verbatim>\<open>current[decodedSegment]\<close> also find what \<^verbatim>\<open>current\<close> inherits, so
  the loop can leave the document for the objects of the library; a function among them
  is no object for \<^verbatim>\<open>typeof\<close> and ends the loop.
\<close>

fun resolve_path :: "engine \<Rightarrow> js_value \<Rightarrow> string list \<Rightarrow> thrown + js_value" where
  "resolve_path en current [] = Inr current"
| "resolve_path en current (segment # rest) =
     (case current of
        Node cur \<Rightarrow>
          if cur = JNull \<or> \<not> typeof_object cur then Inr (Node JNull)
          else
            (case decodeURIComponent (unescape_segment segment) of
               Inl e \<Rightarrow> Inl e
             | Inr decodedSegment \<Rightarrow>
                 (case member en cur decodedSegment of
                    None \<Rightarrow> Inr (Node JNull)
                  | Some next \<Rightarrow> resolve_path en next rest))
      | Builtin (Builtin_function f) \<Rightarrow> Inr (Node JNull)
      | Builtin (Builtin_object b) \<Rightarrow>
          (case decodeURIComponent (unescape_segment segment) of
             Inl e \<Rightarrow> Inl e
           | Inr decodedSegment \<Rightarrow>
               (case builtin_member en (Builtin_object b) decodedSegment of
                  None \<Rightarrow> Inr (Node JNull)
                | Some m \<Rightarrow> resolve_path en (value_of m) rest)))"

text \<open>
  \<open>resolveReference\<close> itself. The argument \<^verbatim>\<open>ref\<close> is whatever stands
  under \<^verbatim>\<open>$ref\<close> in the document: on anything but a string, the call of
  \<^verbatim>\<open>ref.startsWith\<close>, which stands before the \<^verbatim>\<open>try\<close>, throws.
\<close>

definition resolveReference :: "engine \<Rightarrow> json \<Rightarrow> json \<Rightarrow> thrown + js_value" where
  "resolveReference en spec ref =
     (case ref of
        JStr r \<Rightarrow>
          if \<not> startsWith r ''#/'' then Inr (Node JNull)
          else
            (case resolve_path en (Node spec) (split_on (CHR ''/'') (drop 2 r)) of
               Inl e \<Rightarrow> Inr (Node JNull)
             | Inr v \<Rightarrow> Inr v)
      | _ \<Rightarrow> Inl TypeError)"

text \<open>Truthiness of what the resolver returns: a library object is truthy.\<close>

definition truthy_value :: "js_value \<Rightarrow> bool" where
  "truthy_value v = (case v of Node w \<Rightarrow> truthy (Some w) | Builtin b \<Rightarrow> True)"

subsection \<open>The node a pointer refers to\<close>







section \<open>Keys\<close>

lemma map_of_in_fst: "(k \<in> set (map fst kvs)) = (map_of kvs k \<noteq> None)"
  by (simp add: map_of_eq_None_iff)

lemma digits_string_of_nat: "list_all is_digit (string_of_nat n)"
proof (induction n rule: string_of_nat.induct)
  case (1 n)
  have d: "is_digit (''0123456789'' ! k)" if "k < 10" for k
  proof -
    from that have "k \<in> {0,1,2,3,4,5,6,7,8,9}" by auto
    then show ?thesis by (auto simp add: is_digit_def)
  qed
  show ?case
  proof (cases "n < 10")
    case True
    then show ?thesis by (subst string_of_nat.simps) (simp add: d)
  next
    case False
    then show ?thesis using 1 by (subst string_of_nat.simps) (simp add: d)
  qed
qed

text \<open>A key that is neither an array index nor \<^verbatim>\<open>length\<close> is found in objects only.\<close>

definition field_name :: "string \<Rightarrow> bool" where
  "field_name k = (\<not> list_all is_digit k \<and> k \<noteq> ''length'')"

lemma field_name_not_index: "field_name k \<Longrightarrow> k \<noteq> string_of_nat n"
  using digits_string_of_nat[of n] by (auto simp add: field_name_def)

lemma map_of_zip_field:
  "field_name k \<Longrightarrow> map_of (zip (map string_of_nat ns) xs) k = None"
proof -
  assume f: "field_name k"
  have "k \<notin> set (map string_of_nat ns)" using field_name_not_index[OF f] by auto
  then have "k \<notin> fst ` set (zip (map string_of_nat ns) xs)"
    by (metis in_set_zipE imageE prod.collapse)
  then show ?thesis by (simp add: map_of_eq_None_iff)
qed





section \<open>The schema type mapper\<close>

subsection \<open>Zod types\<close>

text \<open>
  A Zod type is kept as the tree of the builder calls that made it:
  \<^verbatim>\<open>z.any().describe(d).optional()\<close> is \<open>ZOptional (ZDescribe d ZAny)\<close>. The
  description is whatever value the code passes. \<^verbatim>\<open>describe\<close> keeps the class of
  the object it is called on, so \<^verbatim>\<open>instanceof\<close> looks through it.
\<close>

datatype string_check =
    Datetime | Email | Uuid | MinLength json | MaxLength json | Regex json

datatype array_check = MinItems json | MaxItems json

datatype zod =
    ZAny
  | ZString "string_check list"
  | ZEnum "json list"
  | ZNumber
  | ZInt
  | ZBoolean
  | ZNull
  | ZArray zod "array_check list"
  | ZObject "(string \<times> zod) list" bool
      \<comment> \<open>the shape, and whether \<^verbatim>\<open>.passthrough()\<close> was called\<close>
  | ZRecord zod
  | ZUnion "zod list"
  | ZOptional zod
  | ZDescribe json zod

fun undescribed :: "zod \<Rightarrow> zod" where
  "undescribed (ZDescribe d z) = undescribed z"
| "undescribed z = z"

definition instanceof_ZodNull :: "zod \<Rightarrow> bool" where
  "instanceof_ZodNull z = (undescribed z = ZNull)"

definition instanceof_ZodUnion :: "zod \<Rightarrow> bool" where
  "instanceof_ZodUnion z = (case undescribed z of ZUnion _ \<Rightarrow> True | _ \<Rightarrow> False)"

definition union_options :: "zod \<Rightarrow> zod list" where
  "union_options z = (case undescribed z of ZUnion opts \<Rightarrow> opts | _ \<Rightarrow> [])"

definition optional_if :: "bool \<Rightarrow> zod \<Rightarrow> zod" where
  "optional_if isOptional z = (if isOptional then ZOptional z else z)"

text \<open>\<^verbatim>\<open>{ ...schema, type: t }\<close>: the fields of the schema, with the type replaced
  where it stands or added at the end.\<close>

definition with_type :: "json \<Rightarrow> json \<Rightarrow> json" where
  "with_type schema t =
     (case schema of
        JObj kvs \<Rightarrow> JObj (update_field ''type'' t kvs)
      | JArr xs \<Rightarrow> JObj (update_field ''type'' t (zip (map string_of_nat [0 ..< length xs]) xs))
      | JStr s \<Rightarrow> JObj (update_field ''type'' t (zip (map string_of_nat [0 ..< length s]) (map (\<lambda>c. JStr [c]) s)))
      | _ \<Rightarrow> JObj [(''type'', t)])"

subsection \<open>The parameter wrapper\<close>

text \<open>
  What the head of \<open>mapOpenApiTypeToZod\<close> makes of its argument: the early return
  for a parameter without a schema, or the schema to map together with
  \<^verbatim>\<open>isOptional\<close> and \<^verbatim>\<open>descriptionFromParam\<close>.
\<close>

datatype unwrapped =
    Early zod
  | Target bool "json option" json

definition no_schema_type :: "json \<Rightarrow> string \<Rightarrow> zod" where
  "no_schema_type param name =
     (let anyType =
            ZDescribe
              (the (js_or (js_prop param ''description'')
                      (Some (JStr (''Parameter '' @ name @ '' with no schema defined'')))))
              ZAny
      in if truthy (js_prop param ''required'') then anyType else ZOptional anyType)"

text \<open>The warning for a parameter without a schema interpolates its name, which
  throws when the name does not convert to a string.\<close>

definition unwrap_parameter :: "json \<Rightarrow> thrown + unwrapped" where
  "unwrap_parameter schemaOrRef =
     (case has_prop (Some schemaOrRef) ''in'' of
        Inl e \<Rightarrow> Inl e
      | Inr has_in \<Rightarrow>
          (case (if has_in then has_prop (Some schemaOrRef) ''name'' else Inr False) of
             Inl e \<Rightarrow> Inl e
           | Inr False \<Rightarrow> Inr (Target False None schemaOrRef)
           | Inr True \<Rightarrow>
               if \<not> truthy (js_prop schemaOrRef ''schema'') then
                 (case js_String_opt (js_prop schemaOrRef ''name'') of
                    Inl e \<Rightarrow> Inl e
                  | Inr name \<Rightarrow> Inr (Early (no_schema_type schemaOrRef name)))
               else Inr (Target (\<not> truthy (js_prop schemaOrRef ''required''))
                          (js_prop schemaOrRef ''description'')
                          (the (js_prop schemaOrRef ''schema'')))))"

subsection \<open>The cases of the switch that do not recurse\<close>

definition is_JStr :: "json \<Rightarrow> bool" where
  "is_JStr v = (case v of JStr _ \<Rightarrow> True | _ \<Rightarrow> False)"

text \<open>A method of \<^verbatim>\<open>ZodString\<close> called on the type built so far: a TypeError
  when that is the \<^verbatim>\<open>ZodEnum\<close>, which has no such method.\<close>

definition string_method :: "string_check \<Rightarrow> zod \<Rightarrow> thrown + zod" where
  "string_method c z = (case z of ZString cs \<Rightarrow> Inr (ZString (cs @ [c])) | _ \<Rightarrow> Inl TypeError)"

definition when_do :: "bool \<Rightarrow> (zod \<Rightarrow> thrown + zod) \<Rightarrow> thrown + zod \<Rightarrow> thrown + zod" where
  "when_do c f r = (case r of Inl e \<Rightarrow> Inl e | Inr z \<Rightarrow> if c then f z else Inr z)"

definition when_defined :: "json option \<Rightarrow> (json \<Rightarrow> zod \<Rightarrow> thrown + zod) \<Rightarrow> thrown + zod \<Rightarrow> thrown + zod" where
  "when_defined v f r = (case v of None \<Rightarrow> r | Some w \<Rightarrow> when_do True (f w) r)"

text \<open>
  The case \<^verbatim>\<open>'string'\<close>. \<^verbatim>\<open>new RegExp\<close> converts the pattern to a
  string and throws a SyntaxError when the engine does not accept it; both happen
  before the call of \<^verbatim>\<open>regex\<close>.
\<close>

definition string_type :: "engine \<Rightarrow> json \<Rightarrow> thrown + zod" where
  "string_type en schema =
     (let enum_step =
            (if truthy (js_prop schema ''enum'') then
               (case js_prop schema ''enum'' of
                  Some (JArr enumValues) \<Rightarrow>
                    if list_all is_JStr enumValues \<and> length enumValues > 0
                    then Inr (ZEnum enumValues) else Inr (ZString [])
                | _ \<Rightarrow> Inl TypeError)
             else Inr (ZString []))
      in when_defined (js_prop schema ''pattern'')
           (\<lambda>pattern z. case js_String pattern of
                          Inl e \<Rightarrow> Inl e
                        | Inr p \<Rightarrow> if \<not> regexp_accepts en p then Inl SyntaxError
                                   else string_method (Regex pattern) z)
        (when_defined (js_prop schema ''maxLength'') (\<lambda>n. string_method (MaxLength n))
        (when_defined (js_prop schema ''minLength'') (\<lambda>n. string_method (MinLength n))
        (when_do (js_prop schema ''format'' = Some (JStr ''uuid'')) (string_method Uuid)
        (when_do (js_prop schema ''format'' = Some (JStr ''email'')) (string_method Email)
        (when_do (js_prop schema ''format'' = Some (JStr ''date-time'')) (string_method Datetime)
           enum_step))))))"

definition array_type :: "json \<Rightarrow> zod \<Rightarrow> zod" where
  "array_type schema item =
     ZArray item
       ((case js_prop schema ''minItems'' of None \<Rightarrow> [] | Some n \<Rightarrow> [MinItems n])
        @ (case js_prop schema ''maxItems'' of None \<Rightarrow> [] | Some n \<Rightarrow> [MaxItems n]))"

text \<open>\<^verbatim>\<open>typeof v === 'object'\<close> for a value that may be \<^verbatim>\<open>undefined\<close>.\<close>

definition typeof_object_opt :: "json option \<Rightarrow> bool" where
  "typeof_object_opt v = (case v of None \<Rightarrow> False | Some w \<Rightarrow> typeof_object w)"

text \<open>
  \<^verbatim>\<open>z.object(shape)\<close> and what \<^verbatim>\<open>additionalProperties\<close> adds. When
  that is an object (or \<^verbatim>\<open>null\<close>, an object for \<^verbatim>\<open>typeof\<close>), the
  warning interpolates \<^verbatim>\<open>schema.title || 'object'\<close>.
\<close>

definition object_type :: "json \<Rightarrow> (string \<times> zod) list \<Rightarrow> thrown + zod" where
  "object_type schema shape =
     (if js_prop schema ''additionalProperties'' = Some (JBool True) then Inr (ZObject shape True)
      else if typeof_object_opt (js_prop schema ''additionalProperties'') then
        (case js_String (the (js_or (js_prop schema ''title'') (Some (JStr ''object'')))) of
           Inl e \<Rightarrow> Inl e
         | Inr title \<Rightarrow> Inr (ZObject shape True))
      else Inr (ZObject shape False))"

text \<open>The shape the loop over the properties builds from the mapped properties:
  \<^verbatim>\<open>shape[propName] = ...\<close> for each.\<close>

fun build_shape :: "(string \<times> zod) list \<Rightarrow> (string \<times> zod) list \<Rightarrow> (string \<times> zod) list" where
  "build_shape shape [] = shape"
| "build_shape shape ((k, z) # rest) = build_shape (assign_property k z shape) rest"

text \<open>\<^verbatim>\<open>s.includes(p)\<close> on strings.\<close>

fun string_includes :: "string \<Rightarrow> string \<Rightarrow> bool" where
  "string_includes [] p = (p = [])"
| "string_includes (c # cs) p = (startsWith (c # cs) p \<or> string_includes cs p)"

text \<open>The truth of \<^verbatim>\<open>schema.required?.includes(propName)\<close>.\<close>

definition required_includes :: "json \<Rightarrow> string \<Rightarrow> thrown + bool" where
  "required_includes schema propName =
     (case js_prop schema ''required'' of
        None \<Rightarrow> Inr False
      | Some JNull \<Rightarrow> Inr False
      | Some (JArr xs) \<Rightarrow> Inr (JStr propName \<in> set xs)
      | Some (JStr s) \<Rightarrow> Inr (string_includes s propName)
      | Some _ \<Rightarrow> Inl TypeError)"

definition property_type :: "json \<Rightarrow> string \<Rightarrow> thrown + zod \<Rightarrow> thrown + (string \<times> zod)" where
  "property_type schema propName r =
     (case r of
        Inl e \<Rightarrow> Inl e
      | Inr z \<Rightarrow>
          (case required_includes schema propName of
             Inl e \<Rightarrow> Inl e
           | Inr req \<Rightarrow> Inr (propName, if req then z else ZOptional z)))"

text \<open>What the branch for a type array builds from the mapped members.\<close>

definition type_array_result :: "json list \<Rightarrow> zod list \<Rightarrow> zod" where
  "type_array_result types zodTypes =
     (let zodType =
            (if length zodTypes = 0 \<and> JStr ''null'' \<in> set types then ZNull
             else if length zodTypes = 1 then hd zodTypes
             else if length zodTypes > 1 then ZUnion zodTypes
             else ZAny)
      in if JStr ''null'' \<in> set types \<and> \<not> instanceof_ZodNull zodType
         then ZUnion [zodType, ZNull] else zodType)"

text \<open>\<^verbatim>\<open>Array.isArray(schema.type)\<close>, with the array.\<close>

definition type_array :: "json option \<Rightarrow> json list option" where
  "type_array v = (case v of Some (JArr types) \<Rightarrow> Some types | _ \<Rightarrow> None)"

text \<open>The branch for a missing type: the type inferred from the structure, if any. The
  warning that reports the inference interpolates the title of the schema, or the empty
  string.\<close>

definition inferred_type :: "json \<Rightarrow> thrown + string option" where
  "inferred_type schema =
     (if truthy (js_prop schema ''type'') then Inr None
      else
        (case has_prop (Some schema) ''items'' of
           Inl e \<Rightarrow> Inl e
         | Inr has_items \<Rightarrow>
             if truthy (js_prop schema ''properties'') \<or> truthy (js_prop schema ''additionalProperties'')
                \<or> (has_items \<and> truthy (js_prop schema ''items''))
             then
               (case js_String (the (js_or (js_prop schema ''title'') (Some (JStr [])))) of
                  Inl e \<Rightarrow> Inl e
                | Inr title \<Rightarrow>
                    Inr (Some (if has_items \<and> truthy (js_prop schema ''items'') then ''array'' else ''object'')))
             else Inr None))"

text \<open>The last branch, for an unknown or missing type: the warning interpolates
  \<^verbatim>\<open>schema.type\<close>.\<close>

definition unknown_type :: "json \<Rightarrow> thrown + zod" where
  "unknown_type schema =
     (case js_String_opt (js_prop schema ''type'') of Inl e \<Rightarrow> Inl e | Inr t \<Rightarrow> Inr ZAny)"

text \<open>After the switch: \<^verbatim>\<open>nullable\<close>, then the description, then optionality.\<close>

definition finish :: "json \<Rightarrow> json option \<Rightarrow> bool \<Rightarrow> zod \<Rightarrow> zod" where
  "finish schema descriptionFromParam isOptional zodType =
     (let isAlreadyNullable =
            ((instanceof_ZodUnion zodType \<and> list_ex instanceof_ZodNull (union_options zodType))
             \<or> instanceof_ZodNull zodType);
          z1 = (if truthy (js_prop schema ''nullable'') \<and> \<not> isAlreadyNullable
                then ZUnion [zodType, ZNull] else zodType);
          description = js_or descriptionFromParam (js_prop schema ''description'');
          z2 = (if truthy description then ZDescribe (the description) z1 else z1)
      in optional_if isOptional z2)"

text \<open>The three returns of the reference branch.\<close>

definition circular_type :: "string \<Rightarrow> zod" where
  "circular_type refString = ZDescribe (JStr (''Circular reference: '' @ refString)) ZAny"

definition unresolved_type :: "string \<Rightarrow> zod" where
  "unresolved_type refString = ZDescribe (JStr (''Unresolved reference: '' @ refString)) ZAny"

definition resolved_type :: "json option \<Rightarrow> json option \<Rightarrow> zod \<Rightarrow> zod" where
  "resolved_type descriptionFromParam resolvedDescription resolvedType =
     (let finalDescription = js_or descriptionFromParam resolvedDescription
      in if truthy finalDescription then ZDescribe (the finalDescription) resolvedType
         else resolvedType)"

text \<open>
  The type of a reference that resolves to an object of the library. Such an object has
  none of the properties the mapper reads: it is no parameter and no reference, it has
  no type and no structure, and the mapper makes \<^verbatim>\<open>z.any()\<close> of it without a
  description of its own.
\<close>

definition builtin_type :: "json option \<Rightarrow> zod" where
  "builtin_type descriptionFromParam = resolved_type descriptionFromParam None ZAny"

subsection \<open>The measure of the recursion\<close>

text \<open>The pointer strings that stand under \<^verbatim>\<open>$ref\<close> anywhere in a value.\<close>

fun refs :: "json \<Rightarrow> string set" where
  "refs (JObj kvs) =
     (\<Union>kv \<in> set kvs.
        (if fst kv = ''$ref'' then (case snd kv of JStr r \<Rightarrow> {r} | _ \<Rightarrow> {}) else {})
        \<union> refs (snd kv))"
| "refs (JArr xs) = (\<Union>x \<in> set xs. refs x)"
| "refs _ = {}"

text \<open>The number of objects and arrays in a value.\<close>

fun weight :: "json \<Rightarrow> nat" where
  "weight (JObj kvs) = Suc (sum_list (map (\<lambda>kv. weight (snd kv)) kvs))"
| "weight (JArr xs) = Suc (sum_list (map weight xs))"
| "weight _ = 0"

definition untyped :: "json \<Rightarrow> nat" where
  "untyped schema = (if truthy (js_prop schema ''type'') then 0 else 1)"

section \<open>Sub-values: what the recursion of the mapper rests on\<close>

lemma finite_own_ref: "finite (case v of JStr r \<Rightarrow> {r} | _ \<Rightarrow> {})"
  by (cases v) simp_all

lemma finite_refs: "finite (refs v)"
proof (induction v)
  case (JObj kvs)
  have "finite ((if fst kv = ''$ref'' then (case snd kv of JStr r \<Rightarrow> {r} | _ \<Rightarrow> {}) else {})
                \<union> refs (snd kv))" if "kv \<in> set kvs" for kv
  proof -
    have "snd kv \<in> Basic_BNFs.snds kv" by (cases kv) simp
    with JObj that have "finite (refs (snd kv))" by blast
    then show ?thesis by (simp add: finite_own_ref)
  qed
  then show ?case by (simp del: refs.simps add: refs.simps(1))
qed simp_all

lemma js_prop_field:
  assumes "field_name k" "js_prop v k = Some p"
  shows "\<exists>kvs. v = JObj kvs \<and> map_of kvs k = Some p"
proof (cases v)
  case (JObj kvs)
  with assms show ?thesis by (simp add: js_prop_def own_props_def)
next
  case (JArr xs)
  with assms show ?thesis
    by (simp add: js_prop_def own_props_def map_add_def map_of_zip_field field_name_def)
next
  case (JStr s)
  with assms show ?thesis
    by (simp add: js_prop_def own_props_def map_add_def map_of_zip_field field_name_def)
qed (use assms in \<open>simp_all add: js_prop_def own_props_def\<close>)

lemma field_names [simp]:
  "field_name ''$ref''" "field_name ''type''" "field_name ''items''" "field_name ''properties''"
  "field_name ''additionalProperties''" "field_name ''schema''" "field_name ''in''" "field_name ''name''"
  "field_name ''description''"
  by (simp_all add: field_name_def is_digit_def)

lemma map_of_sub:
  assumes "map_of kvs k = Some p"
  shows "refs p \<subseteq> refs (JObj kvs)" "weight p < weight (JObj kvs)"
proof -
  from assms have m: "(k, p) \<in> set kvs" by (rule map_of_SomeD)
  then show "refs p \<subseteq> refs (JObj kvs)" by (auto intro!: bexI[of _ "(k, p)"])
  from m have "weight p \<in> set (map (\<lambda>kv. weight (snd kv)) kvs)" by force
  then have "weight p \<le> sum_list (map (\<lambda>kv. weight (snd kv)) kvs)" by (simp add: member_le_sum_list)
  then show "weight p < weight (JObj kvs)" by simp
qed

lemma js_prop_sub:
  assumes "js_prop v k = Some p"
  shows "refs p \<subseteq> refs v" "weight p \<le> weight v"
proof -
  have "refs p \<subseteq> refs v \<and> weight p \<le> weight v"
  proof (cases v)
    case (JObj kvs)
    with assms map_of_sub[of kvs k p] show ?thesis
      by (simp add: js_prop_def own_props_def less_imp_le)
  next
    case (JArr xs)
    from assms JArr have "p = JNum (int (length xs)) \<or> p \<in> set xs"
      by (auto simp add: js_prop_def own_props_def map_add_def split: option.splits if_splits dest!: map_of_SomeD set_zip_rightD)
    then show ?thesis
    proof
      assume "p = JNum (int (length xs))" then show ?thesis by simp
    next
      assume m: "p \<in> set xs"
      then have "weight p \<le> sum_list (map weight xs)" by (simp add: member_le_sum_list)
      with m JArr show ?thesis by auto
    qed
  next
    case (JStr s)
    from assms JStr have "p = JNum (int (length s)) \<or> (\<exists>c. p = JStr [c])"
      by (auto simp add: js_prop_def own_props_def map_add_def split: option.splits if_splits dest!: map_of_SomeD set_zip_rightD)
    then show ?thesis by auto
  qed (use assms in \<open>simp_all add: js_prop_def own_props_def\<close>)
  then show "refs p \<subseteq> refs v" "weight p \<le> weight v" by simp_all
qed

lemma js_prop_field_sub:
  assumes "field_name k" "js_prop v k = Some p"
  shows "weight p < weight v"
  using js_prop_field[OF assms] map_of_sub(2) by blast


lemma unwrap_parameter_target:
  assumes "unwrap_parameter s = Inr (Target opt d t)"
  shows "t = s \<or> js_prop s ''schema'' = Some t"
  using assms
proof -
  from assms have "t = s \<or> (truthy (js_prop s ''schema'') \<and> t = the (js_prop s ''schema''))"
    by (auto simp add: unwrap_parameter_def split: sum.splits bool.splits if_splits)
  then show ?thesis
    by (cases "js_prop s ''schema''") (auto simp add: truthy_def)
qed

lemma unwrap_parameter_sub:
  assumes "unwrap_parameter s = Inr (Target opt d t)"
  shows "refs t \<subseteq> refs s" "weight t \<le> weight s" "t \<noteq> s \<Longrightarrow> weight t < weight s"
  using unwrap_parameter_target[OF assms] js_prop_sub[of s "''schema''" t]
    js_prop_field_sub[of "''schema''" s t]
  by auto

lemma refs_json_of [simp]: "refs (json_of p) = {}"
  by (cases p) simp_all

text \<open>What the resolver returns is a part of what it started from, a primitive value,
  or an object of the library.\<close>

lemma resolve_path_refs:
  "resolve_path en cur segs = Inr (Node w) \<Longrightarrow>
     refs w \<subseteq> (case cur of Node v \<Rightarrow> refs v | Builtin b \<Rightarrow> {})"
proof (induction segs arbitrary: cur)
  case Nil
  then show ?case by simp
next
  case (Cons s segs)
  show ?case
  proof (cases "decodeURIComponent (unescape_segment s)")
    case (Inl e)
    with Cons.prems show ?thesis
      by (cases cur) (auto split: builtin.splits if_splits)
  next
    case (Inr d)
    show ?thesis
    proof (cases cur)
      case (Node v)
      show ?thesis
      proof (cases "v = JNull \<or> \<not> typeof_object v")
        case True
        with Cons.prems Node have "w = JNull" by auto
        then show ?thesis by simp
      next
        case False
        show ?thesis
        proof (cases "member en v d")
          case None
          with Cons.prems Node Inr False have "w = JNull" by simp
          then show ?thesis by simp
        next
          case (Some nxt)
          with Cons.prems Node Inr False have r: "resolve_path en nxt segs = Inr (Node w)" by simp
          have "(case nxt of Node u \<Rightarrow> refs u | Builtin b \<Rightarrow> {}) \<subseteq> refs v"
          proof (cases "map_of (own_props v) d")
            case None
            with Some obtain m where "nxt = value_of m" by (auto simp add: member_def)
            then show ?thesis by (cases m) (simp_all add: value_of_def)
          next
            case (Some u)
            then have "js_prop v d = Some u" by (simp add: js_prop_def)
            then have "refs u \<subseteq> refs v" by (rule js_prop_sub)
            moreover from Some \<open>member en v d = Some nxt\<close> have "nxt = Node u"
              by (simp add: member_def)
            ultimately show ?thesis by simp
          qed
          with Cons.IH[OF r] Node show ?thesis by auto
        qed
      qed
    next
      case (Builtin b)
      show ?thesis
      proof (cases b)
        case (Builtin_function f)
        with Cons.prems Builtin have "w = JNull" by simp
        then show ?thesis by simp
      next
        case (Builtin_object p)
        show ?thesis
        proof (cases "builtin_member en (Builtin_object p) d")
          case None
          with Cons.prems Builtin Builtin_object Inr have "w = JNull" by simp
          then show ?thesis by simp
        next
          case (Some m)
          with Cons.prems Builtin Builtin_object Inr
          have r: "resolve_path en (value_of m) segs = Inr (Node w)" by simp
          have "(case value_of m of Node u \<Rightarrow> refs u | Builtin b \<Rightarrow> {}) = {}"
            by (cases m) (simp_all add: value_of_def)
          with Cons.IH[OF r] show ?thesis by simp
        qed
      qed
    qed
  qed
qed

lemma resolveReference_refs:
  assumes "resolveReference en spec ref = Inr (Node v)"
  shows "refs v \<subseteq> refs spec"
proof (cases ref)
  case (JStr r)
  show ?thesis
  proof (cases "startsWith r ''#/''")
    case False
    with assms JStr have "v = JNull" by (simp add: resolveReference_def)
    then show ?thesis by simp
  next
    case True
    show ?thesis
    proof (cases "resolve_path en (Node spec) (split_on (CHR ''/'') (drop 2 r))")
      case (Inl e)
      with assms JStr True have "v = JNull" by (simp add: resolveReference_def)
      then show ?thesis by simp
    next
      case (Inr res)
      with assms JStr True have "res = Node v" by (simp add: resolveReference_def)
      with Inr resolve_path_refs[of en "Node spec" _ v] show ?thesis by simp
    qed
  qed
qed (use assms in \<open>simp_all add: resolveReference_def\<close>)

lemma map_of_update_field: "map_of (update_field k v kvs) k = Some v"
  by (induction kvs) auto

lemma weight_update_field:
  "sum_list (map (\<lambda>kv. weight (snd kv)) (update_field k t kvs))
     + (case map_of kvs k of None \<Rightarrow> 0 | Some old \<Rightarrow> weight old)
   = sum_list (map (\<lambda>kv. weight (snd kv)) kvs) + weight t"
proof (induction kvs)
  case Nil
  then show ?case by simp
next
  case (Cons kv kvs)
  obtain k' v' where kv: "kv = (k', v')" by (cases kv)
  show ?case
  proof (cases "k' = k")
    case True
    then show ?thesis by (simp add: kv)
  next
    case False
    then show ?thesis using Cons.IH by (simp add: kv)
  qed
qed

lemma refs_JObj_Cons:
  "refs (JObj (kv # kvs)) =
     (if fst kv = ''$ref'' then (case snd kv of JStr r \<Rightarrow> {r} | _ \<Rightarrow> {}) else {})
     \<union> refs (snd kv) \<union> refs (JObj kvs)"
  by simp

lemma refs_update_field:
  "k \<noteq> ''$ref'' \<Longrightarrow> refs (JObj (update_field k t kvs)) \<subseteq> refs (JObj kvs) \<union> refs t"
proof (induction kvs)
  case Nil
  then show ?case by simp
next
  case (Cons kv kvs)
  obtain k' v' where kv: "kv = (k', v')" by (cases kv)
  show ?case
  proof (cases "k' = k")
    case True
    with Cons.prems show ?thesis
      by (auto simp add: kv refs_JObj_Cons simp del: refs.simps)
  next
    case False
    with Cons.IH[OF Cons.prems] show ?thesis
      by (auto simp add: kv refs_JObj_Cons simp del: refs.simps)
  qed
qed

lemma with_type_member:
  assumes "js_prop s ''type'' = Some (JArr ts)" "t \<in> set ts"
  shows "refs (with_type s t) \<subseteq> refs s" "weight (with_type s t) < weight s"
proof -
  from js_prop_field[OF _ assms(1)] obtain kvs where s: "s = JObj kvs"
    and m: "map_of kvs ''type'' = Some (JArr ts)" by auto
  have rt: "refs t \<subseteq> refs (JArr ts)" using assms(2) by auto
  have "refs (JArr ts) \<subseteq> refs s" using js_prop_sub(1)[OF assms(1)] .
  with rt refs_update_field[of "''type''" t kvs] show "refs (with_type s t) \<subseteq> refs s"
    by (simp add: s with_type_def del: refs.simps) blast
  have "weight t \<le> sum_list (map weight ts)" using assms(2) by (simp add: member_le_sum_list)
  then have "weight t < weight (JArr ts)" by simp
  with weight_update_field[of "''type''" t kvs] m show "weight (with_type s t) < weight s"
    by (simp add: s with_type_def)
qed

lemma falsy_weight: "\<not> truthy (Some v) \<Longrightarrow> weight v = 0 \<and> refs v = {}"
  by (cases v) (simp_all add: truthy_def)

lemma inferred_type_object:
  assumes "inferred_type s = Inr (Some x)"
  shows "\<exists>kvs. s = JObj kvs" "\<not> truthy (js_prop s ''type'')" "x = ''array'' \<or> x = ''object''"
proof -
  show "\<not> truthy (js_prop s ''type'')" "x = ''array'' \<or> x = ''object''"
    using assms by (auto simp add: inferred_type_def split: if_splits sum.splits)
  show "\<exists>kvs. s = JObj kvs"
  proof (cases s)
    case (JArr xs)
    have "js_prop s ''properties'' = None" "js_prop s ''additionalProperties'' = None"
         "js_prop s ''items'' = None"
      using js_prop_field[of _ s] JArr by (fastforce simp add: not_Some_eq[symmetric] simp del: not_Some_eq)+
    with assms show ?thesis
      by (auto simp add: inferred_type_def truthy_def split: if_splits sum.splits)
  qed (use assms in \<open>auto simp add: inferred_type_def has_prop_def split: if_splits sum.splits\<close>)
qed

lemma with_type_inferred:
  assumes "inferred_type s = Inr (Some x)"
  shows "refs (with_type s (JStr x)) \<subseteq> refs s" "weight (with_type s (JStr x)) = weight s"
    "untyped (with_type s (JStr x)) = 0" "untyped s = 1"
proof -
  from inferred_type_object[OF assms] obtain kvs where s: "s = JObj kvs"
    and f: "\<not> truthy (js_prop s ''type'')" and x: "x = ''array'' \<or> x = ''object''" by auto
  show "refs (with_type s (JStr x)) \<subseteq> refs s"
    using refs_update_field[of "''type''" "JStr x" kvs] refs.simps(6)[of x]
    by (simp add: s with_type_def del: refs.simps)
  have "(case map_of kvs ''type'' of None \<Rightarrow> 0 | Some old \<Rightarrow> weight old) = 0"
    using f falsy_weight by (auto simp add: s js_prop_def own_props_def split: option.splits)
  with weight_update_field[of "''type''" "JStr x" kvs]
  show "weight (with_type s (JStr x)) = weight s" by (simp add: s with_type_def)
  show "untyped (with_type s (JStr x)) = 0"
    using x by (auto simp add: s with_type_def untyped_def js_prop_def own_props_def
        map_of_update_field truthy_def)
  show "untyped s = 1" using f by (simp add: untyped_def)
qed

lemma type_array_Some: "type_array v = Some ts \<Longrightarrow> v = Some (JArr ts)"
  by (auto simp add: type_array_def split: option.splits json.splits)

text \<open>The order of the recursion: fewer pointers left to enter, then a lighter schema,
  then a schema whose type has been filled in.\<close>

definition mapper_measure :: "(engine \<times> json \<times> string set \<times> json) \<Rightarrow> nat \<times> nat \<times> nat" where
  "mapper_measure = (\<lambda>(en, spec, visited, s).
     (card ((refs spec \<union> refs s) - visited), weight s, untyped s))"

lemma mapper_step:
  assumes "refs s' \<subseteq> refs spec \<union> refs s"
    and "weight s' < weight s \<or> (weight s' = weight s \<and> untyped s' < untyped s)"
  shows "((en, spec, visited, s'), (en, spec, visited, s))
           \<in> inv_image (less_than <*lex*> less_than <*lex*> less_than) mapper_measure"
proof -
  have "(refs spec \<union> refs s') - visited \<subseteq> (refs spec \<union> refs s) - visited"
    using assms(1) by blast
  then have "card ((refs spec \<union> refs s') - visited) \<le> card ((refs spec \<union> refs s) - visited)"
    by (intro card_mono) (simp_all add: finite_refs)
  with assms(2) show ?thesis
    by (auto simp add: mapper_measure_def)
qed

lemma mapper_step_ref:
  assumes "refs s' \<subseteq> refs spec" "r \<in> refs s" "r \<notin> visited"
  shows "((en, spec, insert r visited, s'), (en, spec, visited, s))
           \<in> inv_image (less_than <*lex*> less_than <*lex*> less_than) mapper_measure"
proof -
  have "(refs spec \<union> refs s') - insert r visited \<subset> (refs spec \<union> refs s) - visited"
    using assms by blast
  then have "card ((refs spec \<union> refs s') - insert r visited) < card ((refs spec \<union> refs s) - visited)"
    by (intro psubset_card_mono) (simp_all add: finite_refs)
  then show ?thesis by (simp add: mapper_measure_def)
qed

lemma ref_in_refs:
  assumes "js_prop s ''$ref'' = Some (JStr r)"
  shows "r \<in> refs s"
proof -
  from js_prop_field[OF _ assms] obtain kvs where "s = JObj kvs" "map_of kvs ''$ref'' = Some (JStr r)"
    by auto
  then show ?thesis by (auto dest!: map_of_SomeD intro!: bexI[of _ "(''$ref'', JStr r)"])
qed

section \<open>\<open>mapOpenApiTypeToZod\<close>\<close>

text \<open>
  The mapper. \<open>visitedRefs\<close> is a value here, so that
  \<^verbatim>\<open>new Set(visitedRefs)\<close> is \<open>visitedRefs\<close> itself; the source never adds to
  a set it was handed, only to the copy it makes before it follows a reference. The
  results of the properties and of the members of a type array are computed in the order
  of the loop, and the first exception among them is the one thrown.
\<close>

function mapOpenApiTypeToZod ::
  "engine \<Rightarrow> json \<Rightarrow> string set \<Rightarrow> json \<Rightarrow> thrown + zod" where
  "mapOpenApiTypeToZod en spec visitedRefs schemaOrRef =
     (case unwrap_parameter schemaOrRef of
        Inl e \<Rightarrow> Inl e
      | Inr (Early anyType) \<Rightarrow> Inr anyType
      | Inr (Target isOptional descriptionFromParam schema) \<Rightarrow>
          if isReferenceObject (Some schema) then
            (case js_prop schema ''$ref'' of
               Some (JStr refString) \<Rightarrow>
                 if refString \<in> visitedRefs
                 then Inr (optional_if isOptional (circular_type refString))
                 else
                   (case resolveReference en spec (JStr refString) of
                      Inl e \<Rightarrow> Inl e
                    | Inr (Builtin b) \<Rightarrow>
                        Inr (optional_if isOptional (builtin_type descriptionFromParam))
                    | Inr (Node resolved) \<Rightarrow>
                        if \<not> truthy (Some resolved)
                        then Inr (optional_if isOptional (unresolved_type refString))
                        else
                          (case mapOpenApiTypeToZod en spec (insert refString visitedRefs) resolved of
                             Inl e \<Rightarrow> Inl e
                           | Inr resolvedType \<Rightarrow>
                               Inr (optional_if isOptional
                                      (resolved_type descriptionFromParam
                                         (js_prop resolved ''description'') resolvedType))))
             | _ \<Rightarrow> Inl TypeError)
          else
            (case
               (if js_prop schema ''type'' = Some (JStr ''string'') then string_type en schema
                else if js_prop schema ''type'' = Some (JStr ''integer'') then Inr ZInt
                else if js_prop schema ''type'' = Some (JStr ''number'') then Inr ZNumber
                else if js_prop schema ''type'' = Some (JStr ''boolean'') then Inr ZBoolean
                else if js_prop schema ''type'' = Some (JStr ''array'') then
                  (if \<not> truthy (js_prop schema ''items'') then Inr (ZArray ZAny [])
                   else
                     (case mapOpenApiTypeToZod en spec visitedRefs (the (js_prop schema ''items'')) of
                        Inl e \<Rightarrow> Inl e
                      | Inr item \<Rightarrow> Inr (array_type schema item)))
                else if js_prop schema ''type'' = Some (JStr ''object'') then
                  (if truthy (js_prop schema ''properties'') then
                     (case sequence
                             (map (\<lambda>propName.
                                     case js_prop (the (js_prop schema ''properties'')) propName of
                                       None \<Rightarrow> Inl TypeError
                                     | Some p \<Rightarrow>
                                         property_type schema propName
                                           (mapOpenApiTypeToZod en spec visitedRefs p))
                                (for_in (js_prop schema ''properties''))) of
                        Inl e \<Rightarrow> Inl e
                      | Inr properties \<Rightarrow> object_type schema (build_shape [] properties))
                   else if truthy (js_prop schema ''additionalProperties'') then
                     (if typeof_object_opt (js_prop schema ''additionalProperties'') then
                        (case mapOpenApiTypeToZod en spec visitedRefs
                                (the (js_prop schema ''additionalProperties'')) of
                           Inl e \<Rightarrow> Inl e
                         | Inr valueType \<Rightarrow> Inr (ZRecord valueType))
                      else Inr (ZRecord ZAny))
                   else Inr (ZObject [] False))
                else
                  (case type_array (js_prop schema ''type'') of
                     Some types \<Rightarrow>
                       (case sequence
                               (map (\<lambda>t. mapOpenApiTypeToZod en spec visitedRefs (with_type schema t))
                                  (filter (\<lambda>t. t \<noteq> JStr ''null'') types)) of
                          Inl e \<Rightarrow> Inl e
                        | Inr zodTypes \<Rightarrow> Inr (type_array_result types zodTypes))
                   | None \<Rightarrow>
                       (case inferred_type schema of
                          Inl e \<Rightarrow> Inl e
                        | Inr None \<Rightarrow> unknown_type schema
                        | Inr (Some inferredType) \<Rightarrow>
                            mapOpenApiTypeToZod en spec visitedRefs
                              (with_type schema (JStr inferredType))))) of
               Inl e \<Rightarrow> Inl e
             | Inr zodType \<Rightarrow> Inr (finish schema descriptionFromParam isOptional zodType)))"
  by pat_completeness auto


termination
  apply (relation "inv_image (less_than <*lex*> less_than <*lex*> less_than) mapper_measure")
  subgoal by (intro wf_inv_image wf_lex_prod wf_less_than)
  subgoal for en spec visitedRefs schemaOrRef b isOptional d schema x2 refString res resolved
    using unwrap_parameter_sub(1)[of schemaOrRef isOptional d schema]
      resolveReference_refs[of en spec "JStr refString" resolved] ref_in_refs[of schema refString]
    by (intro mapper_step_ref) auto
  subgoal for en spec visitedRefs schemaOrRef b isOptional d schema
  proof -
    assume u: "unwrap_parameter schemaOrRef = Inr b" "b = Target isOptional d schema"
      and t: "\<not> \<not> truthy (js_prop schema ''items'')"
    from t obtain items where items: "js_prop schema ''items'' = Some items"
      by (cases "js_prop schema ''items''") (simp_all add: truthy_def)
    note s = unwrap_parameter_sub[of schemaOrRef isOptional d schema]
    have "refs items \<subseteq> refs schema" "weight items < weight schema"
      using js_prop_sub(1)[OF items] js_prop_field_sub[OF _ items] by simp_all
    then show ?thesis using s u items by (intro mapper_step) auto
  qed
  subgoal for en spec visitedRefs schemaOrRef b isOptional d schema propName p
  proof -
    assume u: "unwrap_parameter schemaOrRef = Inr b" "b = Target isOptional d schema"
      and t: "truthy (js_prop schema ''properties'')"
      and p: "js_prop (the (js_prop schema ''properties'')) propName = Some p"
    from t obtain props where props: "js_prop schema ''properties'' = Some props"
      by (cases "js_prop schema ''properties''") (simp_all add: truthy_def)
    note s = unwrap_parameter_sub[of schemaOrRef isOptional d schema]
    have "refs p \<subseteq> refs props" "weight p \<le> weight props"
      using js_prop_sub[of props propName p] p props by simp_all
    moreover have "refs props \<subseteq> refs schema" "weight props < weight schema"
      using js_prop_sub(1)[OF props] js_prop_field_sub[OF _ props] by simp_all
    ultimately show ?thesis using s u by (intro mapper_step) auto
  qed
  subgoal for en spec visitedRefs schemaOrRef b isOptional d schema
  proof -
    assume u: "unwrap_parameter schemaOrRef = Inr b" "b = Target isOptional d schema"
      and t: "truthy (js_prop schema ''additionalProperties'')"
    from t obtain ap where ap: "js_prop schema ''additionalProperties'' = Some ap"
      by (cases "js_prop schema ''additionalProperties''") (simp_all add: truthy_def)
    note s = unwrap_parameter_sub[of schemaOrRef isOptional d schema]
    have "refs ap \<subseteq> refs schema" "weight ap < weight schema"
      using js_prop_sub(1)[OF ap] js_prop_field_sub[OF _ ap] by simp_all
    then show ?thesis using s u ap by (intro mapper_step) auto
  qed
  subgoal for en spec visitedRefs schemaOrRef b isOptional d schema res inferredType
  proof -
    assume u: "unwrap_parameter schemaOrRef = Inr b" "b = Target isOptional d schema"
      and i: "inferred_type schema = Inr res" "res = Some inferredType"
    note s = unwrap_parameter_sub[of schemaOrRef isOptional d schema]
    note w = with_type_inferred[of schema inferredType]
    show ?thesis
    proof (cases "schema = schemaOrRef")
      case True
      then show ?thesis using w i by (intro mapper_step) auto
    next
      case False
      then show ?thesis using w i s u by (intro mapper_step) auto
    qed
  qed
  subgoal for en spec visitedRefs schemaOrRef b isOptional d schema types t
  proof -
    assume u: "unwrap_parameter schemaOrRef = Inr b" "b = Target isOptional d schema"
      and ty: "type_array (js_prop schema ''type'') = Some types"
      and t: "t \<in> set (filter (\<lambda>t. t \<noteq> JStr ''null'') types)"
    note s = unwrap_parameter_sub[of schemaOrRef isOptional d schema]
    from type_array_Some[OF ty] t have "refs (with_type schema t) \<subseteq> refs schema"
      "weight (with_type schema t) < weight schema"
      using with_type_member[of schema types t] by simp_all
    then show ?thesis using s u by (intro mapper_step) auto
  qed
  done

declare mapOpenApiTypeToZod.simps [simp del]

section \<open>The circular-reference sentinel in a mapped type\<close>

text \<open>
  \<^verbatim>\<open>describe\<close> makes a copy of the type with the new description, so of the
  descriptions given to a type one after the other, the last one is the description of
  the result; \<^verbatim>\<open>optional\<close> hands the description on to the wrapper.
\<close>

fun description_of :: "zod \<Rightarrow> json option" where
  "description_of (ZDescribe d z) = Some d"
| "description_of (ZOptional z) = description_of z"
| "description_of z = None"

definition circular_prefix :: string where
  "circular_prefix = ''Circular reference: ''"

text \<open>A description that reads like the one of the sentinel.\<close>

definition forging :: "json \<Rightarrow> bool" where
  "forging d = (case d of JStr t \<Rightarrow> startsWith t circular_prefix | _ \<Rightarrow> False)"

text \<open>The pointers for which a type holds the sentinel: the \<^verbatim>\<open>z.any()\<close> in it
  whose description is \<^verbatim>\<open>Circular reference: \<close> followed by the pointer.\<close>

fun sentinels :: "zod \<Rightarrow> string set" where
  "sentinels (ZDescribe d z) =
     (if undescribed z = ZAny
      then (case d of
              JStr t \<Rightarrow> if startsWith t circular_prefix then {drop (length circular_prefix) t} else {}
            | _ \<Rightarrow> {})
      else sentinels z)"
| "sentinels (ZArray z cs) = sentinels z"
| "sentinels (ZObject shape p) = (\<Union>kz \<in> set shape. sentinels (snd kz))"
| "sentinels (ZRecord z) = sentinels z"
| "sentinels (ZUnion zs) = (\<Union>z \<in> set zs. sentinels z)"
| "sentinels (ZOptional z) = sentinels z"
| "sentinels z = {}"

text \<open>A document or schema in which no \<^verbatim>\<open>description\<close> reads like the one of
  the sentinel.\<close>

fun unforged :: "json \<Rightarrow> bool" where
  "unforged (JObj kvs) =
     (\<forall>kv \<in> set kvs. (fst kv = ''description'' \<longrightarrow> \<not> forging (snd kv)) \<and> unforged (snd kv))"
| "unforged (JArr xs) = (\<forall>x \<in> set xs. unforged x)"
| "unforged v = True"

text \<open>The reference graph of a document: a pointer leads to the pointers that stand
  under \<^verbatim>\<open>$ref\<close> in the node it resolves to.\<close>

definition ref_edges :: "engine \<Rightarrow> json \<Rightarrow> (string \<times> string) set" where
  "ref_edges en spec =
     {(r, r'). \<exists>n. resolveReference en spec (JStr r) = Inr (Node n) \<and> truthy (Some n) \<and> r' \<in> refs n}"

section \<open>The tool compiler\<close>

subsection \<open>Tool descriptors\<close>

record executionDetails =
  targetServer :: "json option"
  httpMethod :: "json option"
  apiPath :: "json option"
  openapiParameters :: "json option"
  openapiRequestBody :: "json option"
  openIdConnectUrl :: "json option"
  isDirectReturnValue :: "json option"
  directReturnValue :: "json option"

text \<open>The field \<^verbatim>\<open>method\<close> of a descriptor is \<open>t_method\<close> here, and so on for
  its other fields.\<close>

record tool =
  t_method :: string
  t_name :: json
  t_description :: json
  t_parameters :: zod
  t_category :: string
  t_productName :: string
  t_specPath :: string
  t_executionDetails :: executionDetails

text \<open>The values of \<^verbatim>\<open>OpenAPIV3.HttpMethods\<close>, an enumeration of the library
  \<^verbatim>\<open>openapi-types\<close>.\<close>

definition HttpMethods :: "string list" where
  "HttpMethods = [''get'', ''put'', ''post'', ''delete'', ''options'', ''head'', ''patch'', ''trace'']"

definition toUpperCase :: "string \<Rightarrow> string" where
  "toUpperCase s =
     map (\<lambda>c. if 97 \<le> (of_char c :: nat) \<and> (of_char c :: nat) \<le> 122
               then char_of ((of_char c :: nat) - 32) else c) s"

subsection \<open>The security classifier\<close>

text \<open>
  One named scheme of a requirement: \<open>Some url\<close> when the scheme, resolved if it is a
  reference, has the type \<^verbatim>\<open>openIdConnect\<close> (\<open>url\<close> is its
  \<^verbatim>\<open>openIdConnectUrl\<close>, which may be \<^verbatim>\<open>undefined\<close>), \<open>None\<close>
  otherwise. The name comes from the document, so the lookup can find an inherited
  member; an object of the library is truthy, is no reference and has no
  \<^verbatim>\<open>type\<close>.
\<close>

definition check_scheme :: "engine \<Rightarrow> json \<Rightarrow> json option \<Rightarrow> string \<Rightarrow> thrown + json option option" where
  "check_scheme en spec securitySchemes schemeName =
     (case securitySchemes of
        None \<Rightarrow> Inl TypeError
      | Some JNull \<Rightarrow> Inl TypeError
      | Some schemes \<Rightarrow>
          (case member en schemes schemeName of
             None \<Rightarrow> Inr None
           | Some (Builtin b) \<Rightarrow> Inr None
           | Some (Node scheme) \<Rightarrow>
               if \<not> truthy (Some scheme) then Inr None
               else
                 (case (if isReferenceObject (Some scheme)
                        then (case resolveReference en spec (the (js_prop scheme ''$ref'')) of
                                Inl e \<Rightarrow> Inl e
                              | Inr (Node JNull) \<Rightarrow> Inr (Node scheme)
                              | Inr r \<Rightarrow> Inr r)
                        else Inr (Node scheme)) of
                    Inl e \<Rightarrow> Inl e
                  | Inr (Builtin b) \<Rightarrow> Inr None
                  | Inr (Node resolvedScheme) \<Rightarrow>
                      if \<not> isReferenceObject (Some resolvedScheme)
                         \<and> js_prop resolvedScheme ''type'' = Some (JStr ''openIdConnect'')
                      then Inr (Some (js_prop resolvedScheme ''openIdConnectUrl''))
                      else Inr None)))"

text \<open>The two nested loops with their \<^verbatim>\<open>break\<close>: the first scheme found
  decides. The result is the pair of the flag and the URL captured.\<close>

fun scan_schemes :: "engine \<Rightarrow> json \<Rightarrow> json option \<Rightarrow> string list \<Rightarrow> thrown + json option option" where
  "scan_schemes en spec securitySchemes [] = Inr None"
| "scan_schemes en spec securitySchemes (schemeName # rest) =
     (case check_scheme en spec securitySchemes schemeName of
        Inl e \<Rightarrow> Inl e
      | Inr (Some url) \<Rightarrow> Inr (Some url)
      | Inr None \<Rightarrow> scan_schemes en spec securitySchemes rest)"

fun scan_requirements :: "engine \<Rightarrow> json \<Rightarrow> json option \<Rightarrow> json list \<Rightarrow> thrown + (bool \<times> json option)" where
  "scan_requirements en spec securitySchemes [] = Inr (False, None)"
| "scan_requirements en spec securitySchemes (requirement # rest) =
     (case scan_schemes en spec securitySchemes (for_in (Some requirement)) of
        Inl e \<Rightarrow> Inl e
      | Inr (Some url) \<Rightarrow> Inr (True, url)
      | Inr None \<Rightarrow> scan_requirements en spec securitySchemes rest)"

definition securitySchemes_of :: "json \<Rightarrow> json option" where
  "securitySchemes_of spec = opt_prop (js_prop spec ''components'') ''securitySchemes''"

text \<open>The document-level default: \<^verbatim>\<open>globalRequiresOpenIdAuth\<close> and
  \<^verbatim>\<open>globalOpenIdConnectUrl\<close>.\<close>

definition global_security :: "engine \<Rightarrow> json \<Rightarrow> thrown + (bool \<times> json option)" where
  "global_security en spec =
     (if truthy (js_prop spec ''security'') \<and> truthy (securitySchemes_of spec)
      then (case for_of (js_prop spec ''security'') of
              Inl e \<Rightarrow> Inl e
            | Inr requirements \<Rightarrow> scan_requirements en spec (securitySchemes_of spec) requirements)
      else Inr (False, None))"

text \<open>\<^verbatim>\<open>v > 0\<close>: the left operand is converted to a number;
  \<^verbatim>\<open>undefined\<close> converts to NaN.\<close>

definition greater_than_zero :: "engine \<Rightarrow> json option \<Rightarrow> thrown + bool" where
  "greater_than_zero en v =
     (case v of
        None \<Rightarrow> Inr False
      | Some w \<Rightarrow> (case to_number en w of Inl e \<Rightarrow> Inl e | Inr x \<Rightarrow> Inr (less_number 0 x)))"

text \<open>The classification of one operation: \<^verbatim>\<open>operationRequiresOpenIdAuth\<close> and
  \<^verbatim>\<open>foundOpenIdConnectUrl\<close>.\<close>

definition operation_security ::
  "engine \<Rightarrow> json \<Rightarrow> (bool \<times> json option) \<Rightarrow> json \<Rightarrow> thrown + (bool \<times> json option)" where
  "operation_security en spec global operation =
     (case js_prop operation ''security'' of
        None \<Rightarrow> Inr global
      | Some operationSecurity \<Rightarrow>
          (case get_prop (Some operationSecurity) ''length'' of
             Inl e \<Rightarrow> Inl e
           | Inr len \<Rightarrow>
               (case greater_than_zero en len of
                  Inl e \<Rightarrow> Inl e
                | Inr positive \<Rightarrow>
                    if positive \<and> truthy (securitySchemes_of spec)
                    then (case for_of (Some operationSecurity) of
                            Inl e \<Rightarrow> Inl e
                          | Inr requirements \<Rightarrow>
                              scan_requirements en spec (securitySchemes_of spec) requirements)
                    else Inr (False, None))))"

subsection \<open>Names\<close>

text \<open>\<^verbatim>\<open>safeMethodNameBase\<close>: from the \<^verbatim>\<open>operationId\<close> when it is truthy
  (only a string has the method \<^verbatim>\<open>replace\<close>), from the verb and the path
  otherwise.\<close>

definition safeMethodNameBase :: "json \<Rightarrow> string \<Rightarrow> string \<Rightarrow> thrown + string" where
  "safeMethodNameBase operation httpMeth apiPth =
     (if truthy (js_prop operation ''operationId'')
      then (case js_prop operation ''operationId'' of
              Some (JStr operationId) \<Rightarrow> Inr (sanitizeForMethodName operationId)
            | _ \<Rightarrow> Inl TypeError)
      else Inr (sanitizeForMethodName (httpMeth @ ''_'' @ apiPth)))"

definition dynamicMethodName :: "string \<Rightarrow> string" where
  "dynamicMethodName base = ''api_'' @ base"

definition dynamicToolName :: "json \<Rightarrow> string \<Rightarrow> string \<Rightarrow> json" where
  "dynamicToolName operation httpMeth apiPth =
     the (js_or (js_prop operation ''summary'')
            (Some (JStr (toUpperCase httpMeth @ '' '' @ apiPth))))"

definition dynamicDescription :: "json \<Rightarrow> string \<Rightarrow> string \<Rightarrow> json" where
  "dynamicDescription operation httpMeth apiPth =
     the (js_or (js_prop operation ''description'')
            (js_or (js_prop operation ''summary'')
               (Some (JStr (''Executes '' @ toUpperCase httpMeth @ '' on '' @ apiPth)))))"

subsection \<open>Parameters and request body\<close>

text \<open>
  The parameter a reference resolves to is whatever the resolver returns. The key under
  which its type is stored is its \<^verbatim>\<open>name\<close>, converted to a string; an object
  of the library has the name the engine gives it, and maps to \<^verbatim>\<open>z.any()\<close>.
\<close>

definition parameter_name :: "engine \<Rightarrow> js_value \<Rightarrow> thrown + string" where
  "parameter_name en resolvedParam =
     (case resolvedParam of
        Node p \<Rightarrow> (case get_prop (Some p) ''name'' of Inl e \<Rightarrow> Inl e | Inr name \<Rightarrow> property_key name)
      | Builtin b \<Rightarrow>
          (case map_option value_of (builtin_member en b ''name'') of
             None \<Rightarrow> Inr ''undefined''
           | Some (Node name) \<Rightarrow> js_String name
           | Some (Builtin f) \<Rightarrow> Inr (builtin_to_string en f)))"

definition parameter_type :: "engine \<Rightarrow> json \<Rightarrow> js_value \<Rightarrow> thrown + zod" where
  "parameter_type en spec resolvedParam =
     (case resolvedParam of
        Node p \<Rightarrow> mapOpenApiTypeToZod en spec {} p
      | Builtin b \<Rightarrow> Inr (builtin_type None))"

text \<open>One step of \<^verbatim>\<open>allParams.forEach\<close> on the shape built so far. Which of
  the name and the type is computed first does not show in the result.\<close>

definition add_parameter ::
  "engine \<Rightarrow> json \<Rightarrow> json \<Rightarrow> (string \<times> zod) list \<Rightarrow> thrown + (string \<times> zod) list" where
  "add_parameter en spec paramOrRef shape =
     (case (if isReferenceObject (Some paramOrRef)
            then resolveReference en spec (the (js_prop paramOrRef ''$ref''))
            else Inr (Node paramOrRef)) of
        Inl e \<Rightarrow> Inl e
      | Inr resolvedParam \<Rightarrow>
          if isReferenceObject (Some paramOrRef) \<and> \<not> truthy_value resolvedParam then Inr shape
          else
            (case parameter_name en resolvedParam of
               Inl e \<Rightarrow> Inl e
             | Inr name \<Rightarrow>
                 (case parameter_type en spec resolvedParam of
                    Inl e \<Rightarrow> Inl e
                  | Inr z \<Rightarrow> Inr (assign_property name z shape))))"

fun add_parameters ::
  "engine \<Rightarrow> json \<Rightarrow> json list \<Rightarrow> (string \<times> zod) list \<Rightarrow> thrown + (string \<times> zod) list" where
  "add_parameters en spec [] shape = Inr shape"
| "add_parameters en spec (paramOrRef # rest) shape =
     (case add_parameter en spec paramOrRef shape of
        Inl e \<Rightarrow> Inl e
      | Inr shape' \<Rightarrow> add_parameters en spec rest shape')"

text \<open>\<^verbatim>\<open>[...pathParams, ...operationParams]\<close>: each operand must be iterable.\<close>

definition allParams :: "json \<Rightarrow> json \<Rightarrow> thrown + json list" where
  "allParams pathItem operation =
     (case for_of (js_or (js_prop pathItem ''parameters'') (Some (JArr []))) of
        Inl e \<Rightarrow> Inl e
      | Inr pathParams \<Rightarrow>
          (case for_of (js_or (js_prop operation ''parameters'') (Some (JArr []))) of
             Inl e \<Rightarrow> Inl e
           | Inr operationParams \<Rightarrow> Inr (pathParams @ operationParams)))"

text \<open>The request body: the shape with the parameter \<^verbatim>\<open>body\<close> added when the
  body has a JSON schema. An object of the library has no \<^verbatim>\<open>content\<close>.\<close>

definition add_request_body ::
  "engine \<Rightarrow> json \<Rightarrow> json \<Rightarrow> (string \<times> zod) list \<Rightarrow> thrown + (string \<times> zod) list" where
  "add_request_body en spec operation shape =
     (if \<not> truthy (js_prop operation ''requestBody'') then Inr shape
      else
        (let requestBodyOrRef = the (js_prop operation ''requestBody'') in
         case (if isReferenceObject (Some requestBodyOrRef)
               then resolveReference en spec (the (js_prop requestBodyOrRef ''$ref''))
               else Inr (Node requestBodyOrRef)) of
           Inl e \<Rightarrow> Inl e
         | Inr (Builtin b) \<Rightarrow> Inr shape
         | Inr (Node resolvedRequestBody) \<Rightarrow>
             if \<not> truthy (Some resolvedRequestBody) then Inr shape
             else
               (let requestBodyDesc = js_prop resolvedRequestBody ''description'';
                    isRequestBodyRequired = truthy (js_prop resolvedRequestBody ''required'');
                    jsonContent = opt_prop (js_prop resolvedRequestBody ''content'') ''application/json'';
                    jsonSchema = opt_prop jsonContent ''schema''
                in if \<not> truthy jsonSchema then Inr shape
                   else
                     (case mapOpenApiTypeToZod en spec {} (the jsonSchema) of
                        Inl e \<Rightarrow> Inl e
                      | Inr bodyType \<Rightarrow>
                          (let schemaDescription =
                                 (if \<not> isReferenceObject jsonSchema
                                  then js_prop (the jsonSchema) ''description'' else None);
                               described =
                                 ZDescribe
                                   (the (js_or requestBodyDesc
                                           (js_or schemaDescription
                                              (Some (JStr ''Request body payload'')))))
                                   bodyType
                           in Inr (assign_property ''body''
                                     (if isRequestBodyRequired then described else ZOptional described)
                                     shape))))))"

definition auth_header_type :: zod where
  "auth_header_type =
     ZDescribe
       (JStr (''Optional: Provide a Bearer token for OpenID Connect authentication (e.g., ''
              @ [CHR 0x22] @ ''Bearer <token>'' @ [CHR 0x22]
              @ ''). If not provided, the system will attempt to use its configured credentials.''))
       (ZOptional (ZString []))"

subsection \<open>One operation, one document, all documents\<close>

text \<open>The body of the loop over the verbs of a path item, from the names to the
  \<^verbatim>\<open>push\<close>: the descriptor, or the exception thrown on the way.\<close>

definition compile_operation ::
  "engine \<Rightarrow> string \<Rightarrow> string \<Rightarrow> json \<Rightarrow> (bool \<times> json option)
     \<Rightarrow> string \<Rightarrow> json \<Rightarrow> string \<Rightarrow> json \<Rightarrow> thrown + tool" where
  "compile_operation en productName specPath spec global apiPth pathItem httpMeth operation =
     (case safeMethodNameBase operation httpMeth apiPth of
        Inl e \<Rightarrow> Inl e
      | Inr base \<Rightarrow>
     (case allParams pathItem operation of
        Inl e \<Rightarrow> Inl e
      | Inr params \<Rightarrow>
     (case add_parameters en spec params [] of
        Inl e \<Rightarrow> Inl e
      | Inr shape1 \<Rightarrow>
     (case operation_security en spec global operation of
        Inl e \<Rightarrow> Inl e
      | Inr (operationRequiresOpenIdAuth, foundOpenIdConnectUrl) \<Rightarrow>
     (case add_request_body en spec operation shape1 of
        Inl e \<Rightarrow> Inl e
      | Inr shape2 \<Rightarrow>
          Inr \<lparr> t_method = dynamicMethodName base,
                t_name = dynamicToolName operation httpMeth apiPth,
                t_description = dynamicDescription operation httpMeth apiPth,
                t_parameters =
                  ZObject (if operationRequiresOpenIdAuth
                           then assign_property ''X-User-Authorization'' auth_header_type shape2
                           else shape2) False,
                t_category = ''api_'' @ productName,
                t_productName = productName,
                t_specPath = specPath,
                t_executionDetails =
                  \<lparr> targetServer =
                      opt_prop (opt_prop (js_prop spec ''servers'') ''0'') ''url'',
                    httpMethod = Some (JStr httpMeth),
                    apiPath = Some (JStr apiPth),
                    openapiParameters = Some (JArr params),
                    openapiRequestBody = js_prop operation ''requestBody'',
                    openIdConnectUrl = foundOpenIdConnectUrl,
                    isDirectReturnValue = None,
                    directReturnValue = None \<rparr> \<rparr>)))))"

text \<open>
  The operations of a document in the order of the two loops: each path with a truthy
  path item, each of its keys that is an HTTP verb and holds a truthy operation.
\<close>

definition operations_of :: "json \<Rightarrow> (string \<times> json \<times> string \<times> json) list" where
  "operations_of spec =
     concat (map (\<lambda>apiPth.
        case opt_prop (js_prop spec ''paths'') apiPth of
          None \<Rightarrow> []
        | Some pathItem \<Rightarrow>
            if \<not> truthy (Some pathItem) then []
            else concat (map (\<lambda>httpMeth.
                   if httpMeth \<notin> set HttpMethods then []
                   else (case js_prop pathItem httpMeth of
                           None \<Rightarrow> []
                         | Some operation \<Rightarrow>
                             if \<not> truthy (Some operation) then []
                             else [(apiPth, pathItem, httpMeth, operation)]))
                 (for_in (Some pathItem))))
       (for_in (js_prop spec ''paths'')))"

text \<open>The descriptors pushed until the first exception, which ends the work on the
  document: the \<^verbatim>\<open>catch\<close> logs it, and what was pushed stays.\<close>

fun pushed_until_throw :: "('e + 'a) list \<Rightarrow> 'a list" where
  "pushed_until_throw [] = []"
| "pushed_until_throw (Inl e # rs) = []"
| "pushed_until_throw (Inr x # rs) = x # pushed_until_throw rs"

text \<open>One document of one product. \<open>parsed\<close> is what \<^verbatim>\<open>yaml.load\<close> made of the
  content: an exception, \<^verbatim>\<open>undefined\<close>, or a value.\<close>

definition compile_spec ::
  "engine \<Rightarrow> string \<Rightarrow> string \<Rightarrow> thrown + json option \<Rightarrow> tool list" where
  "compile_spec en productName specPath parsed =
     (case parsed of
        Inl e \<Rightarrow> []
      | Inr None \<Rightarrow> []
      | Inr (Some spec) \<Rightarrow>
          if \<not> truthy (Some spec) \<or> \<not> typeof_object spec \<or> \<not> truthy (js_prop spec ''paths'')
          then []
          else
            (case global_security en spec of
               Inl e \<Rightarrow> []
             | Inr global \<Rightarrow>
                 pushed_until_throw
                   (map (\<lambda>(apiPth, pathItem, httpMeth, operation).
                           compile_operation en productName specPath spec global
                             apiPth pathItem httpMeth operation)
                      (operations_of spec))))"

text \<open>\<open>generateOpenApiTools\<close>: \<open>specData\<close> is the map from product names to maps
  from spec paths to contents, in the order of insertion; \<open>yaml_load\<close> is the
  parser.\<close>

definition generateOpenApiTools ::
  "engine \<Rightarrow> (string \<Rightarrow> thrown + json option)
     \<Rightarrow> (string \<times> (string \<times> string) list) list \<Rightarrow> tool list" where
  "generateOpenApiTools en yaml_load specData =
     concat (map (\<lambda>(productName, specMap).
        concat (map (\<lambda>(specPath, specContent).
                  compile_spec en productName specPath (yaml_load specContent))
                specMap))
       specData)"


section \<open>The tool executor\<close>

subsection \<open>Building the request\<close>

text \<open>\<^verbatim>\<open>s.replace(pattern, replacement)\<close> with a string pattern: the first
  occurrence only. The replacements the executor passes come out of
  \<^verbatim>\<open>encodeURIComponent\<close> and hold no \<^verbatim>\<open>$\<close>.\<close>

fun replace_first :: "string \<Rightarrow> string \<Rightarrow> string \<Rightarrow> string" where
  "replace_first pat rep [] = (if pat = [] then rep else [])"
| "replace_first pat rep (c # cs) =
     (if startsWith (c # cs) pat then rep @ drop (length pat) (c # cs)
      else c # replace_first pat rep cs)"

text \<open>The request under construction: \<^verbatim>\<open>url\<close>, \<^verbatim>\<open>queryParams\<close> and
  \<^verbatim>\<open>headers\<close>.\<close>

record draft =
  d_url :: string
  d_query :: "(string \<times> js_value) list"
  d_headers :: "(string \<times> string) list"

text \<open>\<^verbatim>\<open>String(v)\<close> for a value that can be an object of the library.\<close>

definition value_string :: "engine \<Rightarrow> js_value \<Rightarrow> thrown + string" where
  "value_string en v = (case v of Node w \<Rightarrow> js_String w | Builtin b \<Rightarrow> Inr (builtin_to_string en b))"

text \<open>
  One step of \<^verbatim>\<open>openapiParameters.forEach\<close>. The warning for a reference
  interpolates what stands under \<^verbatim>\<open>$ref\<close>. The value of the parameter is
  looked up in the caller's \<^verbatim>\<open>parameters\<close> under the name of the parameter,
  own or inherited.
\<close>

definition place_parameter :: "engine \<Rightarrow> json option \<Rightarrow> json \<Rightarrow> draft \<Rightarrow> thrown + draft" where
  "place_parameter en parameters paramOrRef d =
     (case has_prop (Some paramOrRef) ''$ref'' of
        Inl e \<Rightarrow> Inl e
      | Inr True \<Rightarrow>
          (case js_String_opt (js_prop paramOrRef ''$ref'') of Inl e \<Rightarrow> Inl e | Inr r \<Rightarrow> Inr d)
      | Inr False \<Rightarrow>
          (case property_key (js_prop paramOrRef ''name'') of
             Inl e \<Rightarrow> Inl e
           | Inr paramName \<Rightarrow>
               (case parameters of
                  None \<Rightarrow> Inl TypeError
                | Some JNull \<Rightarrow> Inl TypeError
                | Some ps \<Rightarrow>
                    (case member en ps paramName of
                       None \<Rightarrow> Inr d
                     | Some paramValue \<Rightarrow>
                         if js_prop paramOrRef ''in'' = Some (JStr ''path'') then
                           (case value_string en paramValue of
                              Inl e \<Rightarrow> Inl e
                            | Inr v \<Rightarrow>
                                Inr (d\<lparr> d_url := replace_first (''{'' @ paramName @ ''}'')
                                                     (encodeURIComponent v) (d_url d) \<rparr>))
                         else if js_prop paramOrRef ''in'' = Some (JStr ''query'') then
                           Inr (d\<lparr> d_query := assign_property paramName paramValue (d_query d) \<rparr>)
                         else if js_prop paramOrRef ''in'' = Some (JStr ''header'') then
                           (case value_string en paramValue of
                              Inl e \<Rightarrow> Inl e
                            | Inr v \<Rightarrow>
                                Inr (d\<lparr> d_headers := assign_property paramName v (d_headers d) \<rparr>))
                         else Inr d))))"

fun place_parameters :: "engine \<Rightarrow> json option \<Rightarrow> json list \<Rightarrow> draft \<Rightarrow> thrown + draft" where
  "place_parameters en parameters [] d = Inr d"
| "place_parameters en parameters (p # ps) d =
     (case place_parameter en parameters p d of
        Inl e \<Rightarrow> Inl e
      | Inr d' \<Rightarrow> place_parameters en parameters ps d')"

text \<open>\<^verbatim>\<open>Object.assign(headers, authHeaders)\<close>.\<close>

fun assign_headers :: "(string \<times> string) list \<Rightarrow> (string \<times> string) list \<Rightarrow> (string \<times> string) list" where
  "assign_headers headers [] = headers"
| "assign_headers headers ((k, v) # rest) = assign_headers (assign_property k v headers) rest"

text \<open>The input of the executor; \<open>getAuthenticationHeaders\<close> is what the caller's
  function returns or throws.\<close>

record executor_input =
  in_method :: string
  in_parameters :: "json option"
  getAuthenticationHeaders :: "thrown + (string \<times> string) list"
  in_executionDetails :: executionDetails

text \<open>
  Steps 2 to 4 and the log line before the call: from the execution details to the
  configuration handed to axios, or the exception thrown before there is one. The
  template literals of the URL and of the log line convert the target server, the path
  and the HTTP method to strings. The method of the request is recorded as that
  string.
\<close>

definition build_request :: "engine \<Rightarrow> executor_input \<Rightarrow> thrown + http_request" where
  "build_request en input =
     (let details = in_executionDetails input in
      if \<not> truthy (targetServer details) then Inl (Err_Missing ''Target server URL'')
      else if \<not> truthy (httpMethod details) then Inl (Err_Missing ''HTTP method'')
      else if \<not> truthy (apiPath details) then Inl (Err_Missing ''API path'')
      else
        (case sequence [js_String (the (targetServer details)), js_String (the (apiPath details))] of
           Inl e \<Rightarrow> Inl e
         | Inr url \<Rightarrow>
        (case (case openapiParameters details of
                 None \<Rightarrow> Inr []
               | Some (JArr ps) \<Rightarrow> Inr ps
               | Some _ \<Rightarrow> Inl TypeError) of
           Inl e \<Rightarrow> Inl e
         | Inr ps \<Rightarrow>
             (case place_parameters en (in_parameters input) ps
                     \<lparr> d_url = concat url,
                       d_query = [],
                       d_headers = [(''Content-Type'', ''application/json''),
                                    (''Accept'', ''application/json'')] \<rparr> of
                Inl e \<Rightarrow> Inl e
              | Inr d \<Rightarrow>
                  (case get_prop (in_parameters input) ''body'' of
                     Inl e \<Rightarrow> Inl e
                   | Inr body \<Rightarrow>
                       (case getAuthenticationHeaders input of
                          Inl e \<Rightarrow> Inl e
                        | Inr authHeaders \<Rightarrow>
                            (case js_String (the (httpMethod details)) of
                               Inl e \<Rightarrow> Inl e
                             | Inr meth \<Rightarrow>
                                 Inr \<lparr> req_method = meth,
                                       req_url = d_url d,
                                       req_headers = assign_headers (d_headers d) authHeaders,
                                       req_auth = None,
                                       req_params = d_query d,
                                       req_data = (if truthy body then body else None) \<rparr>)))))))"

subsection \<open>\<open>executeOpenApiTool\<close>\<close>

record tool_result =
  text_content :: "json option"
  isError :: bool

text \<open>The result returned or the exception raised, and the requests handed to axios.
  \<open>reply\<close> is what the network does with the request.\<close>

definition executeOpenApiTool ::
  "engine \<Rightarrow> executor_input \<Rightarrow> http_reply \<Rightarrow> (thrown + tool_result) \<times> http_request list" where
  "executeOpenApiTool en input reply =
     (if truthy (isDirectReturnValue (in_executionDetails input))
      then (Inr \<lparr> text_content = directReturnValue (in_executionDetails input), isError = False \<rparr>, [])
      else
        (case build_request en input of
           Inl e \<Rightarrow> (Inl e, [])
         | Inr config \<Rightarrow>
             (case axios reply of
                Inr (status, body) \<Rightarrow>
                  (Inr \<lparr> text_content = Some (JStr (JSON_stringify body)), isError = False \<rparr>, [config])
              | Inl (AxiosRejected (Some (status, body)) rq) \<Rightarrow>
                  (Inr \<lparr> text_content = Some (JStr (JSON_stringify body)), isError = True \<rparr>, [config])
              | Inl error \<Rightarrow> (Inl error, [config]))))"

section \<open>Concrete clients, replies and documents\<close>

text \<open>The inputs at which the theorems below are instantiated.\<close>

text \<open>
  An engine: it accepts every pattern and reads a string of digits as a number. Objects
  inherit \<^verbatim>\<open>constructor\<close>, \<^verbatim>\<open>toString\<close> and \<^verbatim>\<open>__proto__\<close>,
  arrays \<^verbatim>\<open>map\<close> and \<^verbatim>\<open>__proto__\<close>.
\<close>

definition demo_number :: "string \<Rightarrow> number" where
  "demo_number s =
     (if s \<noteq> [] \<and> list_all is_digit s
      then Finite (foldl (\<lambda>n c. 10 * n + (int (of_char c :: nat) - 48)) 0 s)
      else NaN)"

definition demo_inherited :: "json \<Rightarrow> string \<Rightarrow> (builtin + primitive) option" where
  "demo_inherited v k =
     (case v of
        JObj kvs \<Rightarrow>
          if k = ''constructor'' then Some (Inl (Builtin_function ''Object''))
          else if k = ''toString'' then Some (Inl (Builtin_function ''toString''))
          else if k = ''__proto__'' then Some (Inl (Builtin_object ''Object.prototype''))
          else None
      | JArr xs \<Rightarrow>
          if k = ''map'' then Some (Inl (Builtin_function ''map''))
          else if k = ''__proto__'' then Some (Inl (Builtin_object ''Array.prototype''))
          else None
      | _ \<Rightarrow> None)"

definition demo_builtin_member :: "builtin \<Rightarrow> string \<Rightarrow> (builtin + primitive) option" where
  "demo_builtin_member b k =
     (case b of
        Builtin_function f \<Rightarrow> (if k = ''name'' then Some (Inr (PStr f)) else None)
      | Builtin_object p \<Rightarrow>
          if p = ''Array.prototype'' \<and> k = ''length'' then Some (Inr (PNum 0))
          else if p = ''Array.prototype'' \<and> k = ''__proto__''
            then Some (Inl (Builtin_object ''Object.prototype''))
          else if p = ''Object.prototype'' \<and> k = ''__proto__'' then Some (Inr PNull)
          else if k = ''toString'' then Some (Inl (Builtin_function ''toString''))
          else None)"

definition demo_engine :: engine where
  "demo_engine =
     \<lparr> regexp_accepts = (\<lambda>p. True),
       string_to_number = demo_number,
       inherited_member = demo_inherited,
       builtin_member = demo_builtin_member,
       builtin_to_string =
         (\<lambda>b. case b of
                 Builtin_function f \<Rightarrow> ''function '' @ f @ ''() { [native code] }''
               | Builtin_object p \<Rightarrow> ''[object Object]'') \<rparr>"

definition demo_client :: "int option \<Rightarrow> McpApi" where
  "demo_client ttl = McpApi_new ''http://mcp'' ''id'' ''secret'' ttl"

definition demo_token :: "string \<Rightarrow> int option \<Rightarrow> json" where
  "demo_token t life =
     JObj ((''access_token'', JStr t) # (case life of None \<Rightarrow> [] | Some n \<Rightarrow> [(''expires_in'', JNum n)]))"

definition demo_env :: "int \<Rightarrow> http_reply \<Rightarrow> http_reply \<Rightarrow> cache_env" where
  "demo_env t tr ar =
     \<lparr> now_check = t + 1, token_reply = tr, now_store = t + 2, runtime = demo_engine,
       api_reply = ar, now_lookup = t, now_cached = t + 3 \<rparr>"

definition demo_fetched :: "int option \<Rightarrow> McpApi" where
  "demo_fetched ttl =
     fst (snd (getSpecContentWithCache (demo_client ttl) ''prod'' ''spec''
                 (demo_env 1000 (Reply 200 (demo_token ''A'' (Some 3600))) (Reply 200 (JStr ''v1'')))))"

definition demo_doc :: json where
  "demo_doc = JObj [(''a'', JNull), (''b'', JObj [(''c/d'', JNum 7)]), (''list'', JArr [JStr ''x''])]"

text \<open>A document whose schemas \<open>A\<close> and \<open>B\<close> refer to each other, and one where
  two properties refer to the same schema.\<close>

definition ref_to :: "string \<Rightarrow> json" where
  "ref_to name = JObj [(''$ref'', JStr (''#/components/schemas/'' @ name))]"

definition object_schema :: "(string \<times> json) list \<Rightarrow> json" where
  "object_schema props = JObj [(''type'', JStr ''object''), (''properties'', JObj props)]"

definition schemas_doc :: "(string \<times> json) list \<Rightarrow> json" where
  "schemas_doc schemas = JObj [(''components'', JObj [(''schemas'', JObj schemas)])]"

definition cyclic_doc :: json where
  "cyclic_doc =
     schemas_doc [(''A'', object_schema [(''b'', ref_to ''B'')]),
                  (''B'', object_schema [(''a'', ref_to ''A'')])]"

definition diamond_doc :: json where
  "diamond_doc =
     schemas_doc [(''A'', object_schema [(''left'', ref_to ''S''), (''right'', ref_to ''S'')]),
                  (''S'', JObj [(''type'', JStr ''string'')])]"

text \<open>The descriptor of \<^verbatim>\<open>GET /users/{id}\<close> with a path parameter and a query
  parameter, and an invocation of it.\<close>

definition demo_details :: executionDetails where
  "demo_details =
     \<lparr> targetServer = Some (JStr ''http://api''),
       httpMethod = Some (JStr ''get''),
       apiPath = Some (JStr ''/users/{id}''),
       openapiParameters =
         Some (JArr [JObj [(''name'', JStr ''id''), (''in'', JStr ''path''), (''required'', JBool True)],
                     JObj [(''name'', JStr ''limit''), (''in'', JStr ''query'')]]),
       openapiRequestBody = None,
       openIdConnectUrl = None,
       isDirectReturnValue = None,
       directReturnValue = None \<rparr>"

definition demo_input :: executor_input where
  "demo_input =
     \<lparr> in_method = ''api_getUser'',
       in_parameters = Some (JObj [(''id'', JStr ''42'')]),
       getAuthenticationHeaders = Inr [(''Authorization'', ''Bearer A'')],
       in_executionDetails = demo_details \<rparr>"

definition demo_config :: http_request where
  "demo_config =
     \<lparr> req_method = ''get'', req_url = ''http://api/users/42'',
       req_headers = [(''Content-Type'', ''application/json''), (''Accept'', ''application/json''),
                      (''Authorization'', ''Bearer A'')],
       req_auth = None, req_params = [], req_data = None \<rparr>"

text \<open>
  A document with a document-level OpenID Connect requirement and three operations on
  one path: \<^verbatim>\<open>get\<close> has no \<^verbatim>\<open>security\<close> field, \<^verbatim>\<open>put\<close> requires
  an API key, \<^verbatim>\<open>delete\<close> has the empty list and the
  \<^verbatim>\<open>operationId\<close> \<^verbatim>\<open>-\<close>.
\<close>

definition users_get :: json where
  "users_get =
     JObj [(''operationId'', JStr ''getUser''),
           (''parameters'',
            JArr [JObj [(''name'', JStr ''id''), (''in'', JStr ''path''), (''required'', JBool True),
                        (''schema'', JObj [(''type'', JStr ''string'')])],
                  JObj [(''name'', JStr ''limit''), (''in'', JStr ''query''),
                        (''schema'', JObj [(''type'', JStr ''integer'')])]])]"

definition users_put :: json where
  "users_put = JObj [(''security'', JArr [JObj [(''key'', JArr [])]])]"

definition users_delete :: json where
  "users_delete = JObj [(''operationId'', JStr ''-''), (''security'', JArr [])]"

definition users_doc_of :: "(string \<times> json) list \<Rightarrow> json" where
  "users_doc_of operations =
     JObj [(''servers'', JArr [JObj [(''url'', JStr ''http://api'')]]),
           (''security'', JArr [JObj [(''oidc'', JArr [])]]),
           (''components'',
            JObj [(''securitySchemes'',
                   JObj [(''oidc'', JObj [(''type'', JStr ''openIdConnect''),
                                          (''openIdConnectUrl'', JStr ''https://idp/config'')]),
                         (''key'', JObj [(''type'', JStr ''apiKey'')])])]),
           (''paths'', JObj [(''/users/{id}'', JObj operations)])]"

definition users_doc :: json where
  "users_doc = users_doc_of [(''get'', users_get), (''put'', users_put), (''delete'', users_delete)]"

text \<open>The same document with the \<^verbatim>\<open>get\<close> operation only.\<close>

definition inherit_doc :: json where
  "inherit_doc = users_doc_of [(''get'', users_get)]"

definition users_tools :: "tool list" where
  "users_tools =
     generateOpenApiTools demo_engine (\<lambda>c. Inr (Some users_doc)) [(''prod'', [(''spec'', ''text'')])]"

section \<open>Properties of the token manager and the spec cache\<close>

subsection \<open>What the token manager leaves alone\<close>

lemma getValidAccessToken_keeps:
  "specCache (fst (snd (getValidAccessToken s e))) = specCache s"
  "cacheTTL (fst (snd (getValidAccessToken s e))) = cacheTTL s"
  "baseUrl (fst (snd (getValidAccessToken s e))) = baseUrl s"
  "token_request (fst (snd (getValidAccessToken s e))) = token_request s"
  by (simp_all add: getValidAccessToken_def token_request_def split: sum.splits prod.splits)

lemma api_catch_keeps:
  "specCache (snd (api_catch s status errorData)) = specCache s"
  "cacheTTL (snd (api_catch s status errorData)) = cacheTTL s"
  by (simp_all add: api_catch_def split: sum.splits)

lemma makeRequest_keeps:
  "specCache (fst (snd (makeRequest s ep m d e))) = specCache s"
  "cacheTTL (fst (snd (makeRequest s ep m d e))) = cacheTTL s"
proof -
  obtain r s1 q where g: "getValidAccessToken s e = (r, s1, q)" by (cases "getValidAccessToken s e")
  have k: "specCache s1 = specCache s" "cacheTTL s1 = cacheTTL s"
    using getValidAccessToken_keeps[of s e] g by simp_all
  show "specCache (fst (snd (makeRequest s ep m d e))) = specCache s"
    using g k by (simp add: makeRequest_def Let_def api_catch_keeps
        split: sum.splits prod.splits thrown.splits option.splits bool.splits)
  show "cacheTTL (fst (snd (makeRequest s ep m d e))) = cacheTTL s"
    using g k by (simp add: makeRequest_def Let_def api_catch_keeps
        split: sum.splits prod.splits thrown.splits option.splits bool.splits)
qed

lemma getSpecContent_keeps:
  "specCache (fst (snd (getSpecContent s p x e))) = specCache s"
  "cacheTTL (fst (snd (getSpecContent s p x e))) = cacheTTL s"
  by (simp_all add: getSpecContent_def makeRequest_keeps)

text \<open>The token manager does not look at the cache.\<close>

lemma getValidAccessToken_cache_indep:
  "getValidAccessToken (s\<lparr>specCache := c\<rparr>) e =
     (fst (getValidAccessToken s e), (fst (snd (getValidAccessToken s e)))\<lparr>specCache := c\<rparr>,
      snd (snd (getValidAccessToken s e)))"
  by (simp add: getValidAccessToken_def token_request_def split: sum.splits prod.splits)

lemma api_catch_cache_indep:
  "api_catch (s\<lparr>specCache := c\<rparr>) status errorData =
     (fst (api_catch s status errorData), (snd (api_catch s status errorData))\<lparr>specCache := c\<rparr>)"
  by (simp add: api_catch_def split: sum.splits)

lemma makeRequest_cache_indep:
  "makeRequest (s\<lparr>specCache := c\<rparr>) ep m d e =
     (fst (makeRequest s ep m d e), (fst (snd (makeRequest s ep m d e)))\<lparr>specCache := c\<rparr>,
      snd (snd (makeRequest s ep m d e)))"
proof -
  obtain r s1 q where g: "getValidAccessToken s e = (r, s1, q)" by (cases "getValidAccessToken s e")
  have g': "getValidAccessToken (s\<lparr>specCache := c\<rparr>) e = (r, s1\<lparr>specCache := c\<rparr>, q)"
    using getValidAccessToken_cache_indep[where s=s and c=c and e=e] g by simp
  show ?thesis
    by (simp add: makeRequest_def g g' Let_def api_request_def api_catch_cache_indep
        split: sum.splits prod.splits thrown.splits option.splits bool.splits)
qed

lemma getSpecContent_cache_indep:
  "getSpecContent (s\<lparr>specCache := c\<rparr>) p x e =
     (fst (getSpecContent s p x e), (fst (snd (getSpecContent s p x e)))\<lparr>specCache := c\<rparr>,
      snd (snd (getSpecContent s p x e)))"
  by (simp add: getSpecContent_def makeRequest_cache_indep)

lemma getValidAccessToken_no_GET:
  "api_calls (snd (snd (getValidAccessToken s e))) = []"
  by (simp add: getValidAccessToken_def token_request_def api_calls_def split: sum.splits prod.splits)

lemma getSpecContent_one_fetch:
  assumes "fst (getSpecContent s p x e) = Inr c"
  shows "length (api_calls (snd (snd (getSpecContent s p x e)))) = 1"
proof -
  obtain r s1 q where g: "getValidAccessToken s e = (r, s1, q)" by (cases "getValidAccessToken s e")
  have q: "api_calls q = []" using getValidAccessToken_no_GET[of s e] g by simp
  from assms g q show ?thesis
    by (auto simp add: getSpecContent_def makeRequest_def Let_def api_request_def api_calls_def
        split: sum.splits prod.splits thrown.splits option.splits bool.splits if_splits)
qed

lemmas demo_defs = demo_client_def demo_token_def demo_env_def McpApi_new_def constructor_cacheTTL_def
lemmas js_defs = js_prop_def own_props_def has_prop_def get_prop_def opt_prop_def truthy_def
  typeof_object_def isReferenceObject_def for_in_def for_of_def js_or_def js_String_opt_def
  property_key_def
lemmas number_defs = to_number_def number_times_def number_plus_def less_number_def truthy_number_def
lemmas client_defs = getValidAccessToken_def makeRequest_def getSpecContent_def getSpecContentWithCache_def
  axios_def read_token_def before_expiry_def token_catch_def api_catch_def error_details_def Let_def

lemma demo_fetched_eval:
  "demo_fetched ttl =
     (demo_client ttl)\<lparr> accessToken := Some (JStr ''A''), tokenExpiry := Some (Finite 3601002),
        specCache := (if 0 < constructor_cacheTTL ttl
                      then [cacheKey ''prod'' ''spec'' \<mapsto> \<lparr> content = JStr ''v1'', expiry = 1003 + constructor_cacheTTL ttl \<rparr>]
                      else Map.empty) \<rparr>"
  by (simp add: demo_fetched_def demo_client_def demo_token_def demo_env_def McpApi_new_def
        client_defs js_defs number_defs)


subsection \<open>Token reuse and tokens without a lifetime\<close>

lemma no_expiry_exchanges:
  assumes "tokenExpiry s = None"
  shows "snd (snd (getValidAccessToken s e)) = [token_request s]"
  using assms by (simp add: getValidAccessToken_def truthy_number_def split: sum.splits prod.splits)

lemma no_lifetime_no_expiry:
  assumes "tokenExpiry s = None" "no_lifetime (token_reply e)"
  shows "tokenExpiry (fst (snd (getValidAccessToken s e))) = None"
proof (cases "token_reply e")
  case (Reply status body)
  with assms(2) have n: "\<not> truthy (opt_prop (Some body) ''expires_in'')"
    by (simp add: no_lifetime_def)
  have "\<not> truthy (js_prop body ''expires_in'')" if "body \<noteq> JNull"
    using n that by (cases body) (simp_all add: opt_prop_def)
  moreover have "get_prop (Some JNull) ''access_token'' = Inl TypeError"
    by (simp add: get_prop_def)
  ultimately show ?thesis using assms(1) Reply
    by (cases "body = JNull")
       (auto simp add: getValidAccessToken_def truthy_number_def axios_def read_token_def
          split: sum.splits prod.splits)
next
  case NoReply
  with assms(1) show ?thesis
    by (simp add: getValidAccessToken_def truthy_number_def axios_def)
next
  case NotSent
  with assms(1) show ?thesis
    by (simp add: getValidAccessToken_def truthy_number_def axios_def)
qed

lemma token_calls_no_expiry:
  assumes "tokenExpiry s = None" "list_all (\<lambda>e. no_lifetime (token_reply e)) es"
  shows "list_all (\<lambda>rq. snd rq = [token_request s]) (token_calls s es)"
  using assms
proof (induction es arbitrary: s)
  case Nil
  then show ?case by simp
next
  case (Cons e es)
  have 1: "snd (snd (getValidAccessToken s e)) = [token_request s]"
    by (rule no_expiry_exchanges[OF Cons.prems(1)])
  have 2: "tokenExpiry (fst (snd (getValidAccessToken s e))) = None"
    using Cons.prems by (intro no_lifetime_no_expiry) simp_all
  have 3: "list_all (\<lambda>rq. snd rq = [token_request (fst (snd (getValidAccessToken s e)))])
             (token_calls (fst (snd (getValidAccessToken s e))) es)"
    using Cons.prems(2) by (intro Cons.IH[OF 2]) simp
  show ?case using 1 3 by (simp add: getValidAccessToken_keeps(4))
qed

text \<open>
  C1, as the code has it. A stored token is reused, with no request, whenever the clock
  (milliseconds since the epoch, so not negative) is more than 30 seconds before the
  stored expiry. When a successful exchange brings no \<^verbatim>\<open>expires_in\<close> (none
  at all, or a falsy one), the token is stored with the expiry absent
  (\<^verbatim>\<open>null\<close>), and the validity check wants an expiry: from a client without
  an expiry, each of any number of consecutive calls performs a token exchange, as long
  as the replies keep bringing no lifetime. The source says so where it stores the
  expiry: \<^verbatim>\<open>If no expires_in, we can't cache based on time\<close>.
\<close>

theorem token_reuse_and_refresh:
  "(truthy (accessToken s) \<and> tokenExpiry s = Some (Finite x) \<and> 0 \<le> now_check e
      \<and> now_check e < x - 30000
    \<longrightarrow> getValidAccessToken s e = (Inr (the (accessToken s)), s, []))
   \<and>
   (\<not> (truthy (accessToken s) \<and> truthy_number (tokenExpiry s)
         \<and> before_expiry (now_check e) (the (tokenExpiry s)))
      \<and> token_reply e = Reply status body \<and> 200 \<le> status \<and> status < 300
      \<and> get_prop (Some body) ''access_token'' = Inr (Some tok) \<and> truthy (Some tok)
      \<and> \<not> truthy (js_prop body ''expires_in'')
    \<longrightarrow> getValidAccessToken s e
          = (Inr tok, s\<lparr> accessToken := Some tok, tokenExpiry := None \<rparr>, [token_request s]))
   \<and>
   (tokenExpiry s = None \<and> list_all (\<lambda>e. no_lifetime (token_reply e)) es
    \<longrightarrow> list_all (\<lambda>rq. snd rq = [token_request s]) (token_calls s es))"
proof (intro conjI impI)
  assume a: "truthy (accessToken s) \<and> tokenExpiry s = Some (Finite x) \<and> 0 \<le> now_check e
      \<and> now_check e < x - 30000"
  then show "getValidAccessToken s e = (Inr (the (accessToken s)), s, [])"
    by (simp add: getValidAccessToken_def truthy_number_def before_expiry_def less_number_def
          number_plus_def)
next
  assume "\<not> (truthy (accessToken s) \<and> truthy_number (tokenExpiry s)
         \<and> before_expiry (now_check e) (the (tokenExpiry s)))
      \<and> token_reply e = Reply status body \<and> 200 \<le> status \<and> status < 300
      \<and> get_prop (Some body) ''access_token'' = Inr (Some tok) \<and> truthy (Some tok)
      \<and> \<not> truthy (js_prop body ''expires_in'')"
  then show "getValidAccessToken s e
          = (Inr tok, s\<lparr> accessToken := Some tok, tokenExpiry := None \<rparr>, [token_request s])"
    by (auto simp add: getValidAccessToken_def axios_def read_token_def)
next
  assume "tokenExpiry s = None \<and> list_all (\<lambda>e. no_lifetime (token_reply e)) es"
  then show "list_all (\<lambda>rq. snd rq = [token_request s]) (token_calls s es)"
    using token_calls_no_expiry by blast
qed

theorem token_reuse_and_refresh_witness:
  "getValidAccessToken ((demo_client None)\<lparr> accessToken := Some (JStr ''A''), tokenExpiry := Some (Finite 100000) \<rparr>)
       (demo_env 1000 NoReply NoReply)
     = (Inr (JStr ''A''),
        (demo_client None)\<lparr> accessToken := Some (JStr ''A''), tokenExpiry := Some (Finite 100000) \<rparr>, [])
   \<and> getValidAccessToken (demo_client None) (demo_env 1000 (Reply 200 (demo_token ''A'' None)) NoReply)
     = (Inr (JStr ''A''), (demo_client None)\<lparr> accessToken := Some (JStr ''A''), tokenExpiry := None \<rparr>,
        [token_request (demo_client None)])
   \<and> map snd (token_calls ((demo_client None)\<lparr> accessToken := Some (JStr ''A''), tokenExpiry := None \<rparr>)
        [\<lparr> now_check = 2000, token_reply = Reply 200 (demo_token ''B'' None), now_store = 2001,
            runtime = demo_engine \<rparr>,
         \<lparr> now_check = 3000, token_reply = NoReply, now_store = 3001, runtime = demo_engine \<rparr>,
         \<lparr> now_check = 4000, token_reply = Reply 200 (demo_token ''C'' None), now_store = 4001,
            runtime = demo_engine \<rparr>])
     = [[token_request (demo_client None)], [token_request (demo_client None)],
        [token_request (demo_client None)]]"
proof -
  let ?s = "(demo_client None)\<lparr> accessToken := Some (JStr ''A''), tokenExpiry := Some (Finite 100000) \<rparr>"
  let ?n = "(demo_client None)\<lparr> accessToken := Some (JStr ''A''), tokenExpiry := None \<rparr>"
  let ?es = "[\<lparr> now_check = 2000, token_reply = Reply 200 (demo_token ''B'' None), now_store = 2001,
            runtime = demo_engine \<rparr>,
         \<lparr> now_check = 3000, token_reply = NoReply, now_store = 3001, runtime = demo_engine \<rparr>,
         \<lparr> now_check = 4000, token_reply = Reply 200 (demo_token ''C'' None), now_store = 4001,
            runtime = demo_engine \<rparr>] :: token_env list"
  note T1 = token_reuse_and_refresh [of ?s 100000 "demo_env 1000 NoReply NoReply", THEN conjunct1, THEN mp]
  note T2 = token_reuse_and_refresh
          [of "demo_client None" _ "demo_env 1000 (Reply 200 (demo_token ''A'' None)) NoReply"
              200 "demo_token ''A'' None" "JStr ''A''", THEN conjunct2, THEN conjunct1, THEN mp]
  note T3 = token_reuse_and_refresh [of ?n _ _ _ _ _ ?es, THEN conjunct2, THEN conjunct2, THEN mp]
  have 1: "getValidAccessToken ?s (demo_env 1000 NoReply NoReply) = (Inr (JStr ''A''), ?s, [])"
    using T1 by (simp add: demo_defs truthy_def)
  have 2: "getValidAccessToken (demo_client None) (demo_env 1000 (Reply 200 (demo_token ''A'' None)) NoReply)
     = (Inr (JStr ''A''), ?n, [token_request (demo_client None)])"
    using T2 by (simp add: demo_defs js_defs truthy_number_def)
  have "list_all (\<lambda>rq. snd rq = [token_request ?n]) (token_calls ?n ?es)"
    using T3 by (simp add: demo_defs no_lifetime_def js_defs)
  then have 3: "map snd (token_calls ?n ?es)
     = [[token_request (demo_client None)], [token_request (demo_client None)],
        [token_request (demo_client None)]]"
    by (simp add: token_request_def)
  show ?thesis using 1 2 3 by simp
qed

text \<open>
  C1 as stated fails: the first exchange succeeds with the token \<open>A\<close> and no
  \<^verbatim>\<open>expires_in\<close>; the next call does not return \<open>A\<close> without a
  request, it asks the token endpoint again and returns what that answers, \<open>B\<close>.
\<close>

theorem token_without_lifetime_counterexample:
  "fst (getValidAccessToken (demo_client None) (demo_env 1000 (Reply 200 (demo_token ''A'' None)) NoReply))
     = Inr (JStr ''A'')
   \<and> js_prop (demo_token ''A'' None) ''expires_in'' = None
   \<and> getValidAccessToken
        (fst (snd (getValidAccessToken (demo_client None)
                     (demo_env 1000 (Reply 200 (demo_token ''A'' None)) NoReply))))
        (demo_env 2000 (Reply 200 (demo_token ''B'' None)) NoReply)
     = (Inr (JStr ''B''), (demo_client None)\<lparr> accessToken := Some (JStr ''B''), tokenExpiry := None \<rparr>,
        [token_request (demo_client None)])"
  by (simp add: demo_defs client_defs js_defs number_defs token_request_def)

subsection \<open>A 401 from the MCP API\<close>

text \<open>
  When \<open>makeRequest\<close> has a token, has issued its request and the MCP API
  answers 401 with details that convert to a string, the error is raised with the
  stored token and its expiry both reset to absent, and whatever the next call of
  \<open>getValidAccessToken\<close> meets, it performs a token exchange.
\<close>

lemma makeRequest_401_invalidates:
  assumes tok: "fst (getValidAccessToken s e) = Inr token"
    and bearer: "js_String token = Inr b"
    and reply: "api_reply e = Reply 401 body"
    and details: "js_String (error_details body ''error'') = Inr d"
    and s': "s' = fst (snd (makeRequest s endpoint meth data e))"
  shows "fst (makeRequest s endpoint meth data e) = Inl (Err_McpApi 401 d True)
         \<and> accessToken s' = None \<and> tokenExpiry s' = None
         \<and> (\<forall>e' :: token_env. snd (snd (getValidAccessToken s' e')) = [token_request s'])"
proof -
  obtain r s1 q where g: "getValidAccessToken s e = (r, s1, q)" by (cases "getValidAccessToken s e")
  with tok have r: "r = Inr token" by simp
  have m: "makeRequest s endpoint meth data e =
             (Inl (Err_McpApi 401 d True), s1\<lparr> accessToken := None, tokenExpiry := None \<rparr>,
              q @ [api_request s1 b endpoint meth data])"
    by (simp add: makeRequest_def g r bearer reply details axios_def api_catch_def Let_def)
  show ?thesis unfolding s' m by (simp add: no_expiry_exchanges)
qed

text \<open>
  The same answer with details that do not convert to a string: the template literal
  that builds the message throws before the status is looked at, the TypeError is what
  the caller gets, and the client is left as the token manager left it, token
  included.
\<close>

lemma makeRequest_401_unconverted:
  assumes tok: "getValidAccessToken s e = (Inr token, s1, q)"
    and bearer: "js_String token = Inr b"
    and reply: "api_reply e = Reply 401 body"
    and details: "js_String (error_details body ''error'') = Inl err"
  shows "makeRequest s endpoint meth data e
           = (Inl err, s1, q @ [api_request s1 b endpoint meth data])"
  by (simp add: makeRequest_def tok bearer reply details axios_def api_catch_def Let_def)

text \<open>
  C8 fails on the code. The client holds the token \<open>A\<close>, valid for an hour. The MCP
  API answers the request with 401 and the body
  \<^verbatim>\<open>{"message": {"toString": 1}}\<close>. The \<^verbatim>\<open>catch\<close> block interpolates
  \<^verbatim>\<open>details\<close>, here the object under \<^verbatim>\<open>message\<close>, into the message
  before it tests the status; the object has a \<^verbatim>\<open>toString\<close> that is no
  function, so the interpolation throws a TypeError and the two assignments that reset
  the token are never reached. The call raises the TypeError, the client still holds
  \<open>A\<close> and its expiry, and the next call of \<open>getValidAccessToken\<close> returns
  \<open>A\<close> without any exchange.
\<close>

theorem unauthorized_keeps_token:
  "accessToken (demo_fetched None) = Some (JStr ''A'')
   \<and> makeRequest (demo_fetched None) ''/products'' ''GET'' None
        (demo_env 2000 NoReply (Reply 401 (JObj [(''message'', JObj [(''toString'', JNum 1)])])))
     = (Inl TypeError, demo_fetched None,
        [api_request (demo_fetched None) ''A'' ''/products'' ''GET'' None])
   \<and> getValidAccessToken (demo_fetched None) (demo_env 3000 NoReply NoReply)
     = (Inr (JStr ''A''), demo_fetched None, [])"
  by (simp add: demo_fetched_eval demo_defs client_defs js_defs number_defs)

subsection \<open>The spec cache with caching disabled\<close>

text \<open>
  C2, as the code has it. A client whose \<open>cacheTTL\<close> field is not positive
  fetches on every call: \<open>getSpecContentWithCache\<close> is \<open>getSpecContent\<close>,
  the cache it leaves is the cache it found, and neither the outcome nor the requests
  depend on what the cache holds. The constructor produces such a field only from the
  option 0: a negative option is replaced by the default of 300000 ms
  (\<^verbatim>\<open>Default cache TTL to 5 minutes if not provided or negative, 0 disables cache\<close>).
\<close>

theorem cache_disabled:
  "(cacheTTL s \<le> 0 \<longrightarrow>
      getSpecContentWithCache s p x e = getSpecContent s p x e
      \<and> specCache (fst (snd (getSpecContentWithCache s p x e))) = specCache s
      \<and> (\<forall>c. fst (getSpecContentWithCache (s\<lparr>specCache := c\<rparr>) p x e) = fst (getSpecContentWithCache s p x e)
            \<and> snd (snd (getSpecContentWithCache (s\<lparr>specCache := c\<rparr>) p x e)) = snd (snd (getSpecContentWithCache s p x e))))
   \<and> (constructor_cacheTTL opt \<le> 0 \<longleftrightarrow> opt = Some 0)"
proof -
  have a: "getSpecContentWithCache s p x e = getSpecContent s p x e" if "cacheTTL s \<le> 0" for s :: McpApi
  proof -
    obtain r s2 q where g: "getSpecContent s p x e = (r, s2, q)" by (cases "getSpecContent s p x e")
    have "cacheTTL s2 = cacheTTL s" using getSpecContent_keeps(2)[of s p x e] g by simp
    with that g show ?thesis
      by (simp add: getSpecContentWithCache_def Let_def split: sum.splits)
  qed
  have b: "constructor_cacheTTL opt \<le> 0 \<longleftrightarrow> opt = Some 0"
    by (auto simp add: constructor_cacheTTL_def split: option.splits)
  show ?thesis
    using a[of s] a[of "s\<lparr>specCache := c\<rparr>" for c] b
    by (auto simp add: getSpecContent_keeps getSpecContent_cache_indep)
qed

theorem cache_disabled_witness:
  "cacheTTL (demo_client (Some 0)) \<le> 0
   \<and> getSpecContentWithCache (demo_client (Some 0)) ''prod'' ''spec''
         (demo_env 1000 (Reply 200 (demo_token ''A'' (Some 3600))) (Reply 200 (JStr ''v1'')))
       = getSpecContent (demo_client (Some 0)) ''prod'' ''spec''
         (demo_env 1000 (Reply 200 (demo_token ''A'' (Some 3600))) (Reply 200 (JStr ''v1'')))
   \<and> specCache (fst (snd (getSpecContentWithCache (demo_client (Some 0)) ''prod'' ''spec''
         (demo_env 1000 (Reply 200 (demo_token ''A'' (Some 3600))) (Reply 200 (JStr ''v1''))))))
       = specCache (demo_client (Some 0))
   \<and> constructor_cacheTTL (Some 0) \<le> 0"
proof -
  have ttl: "cacheTTL (demo_client (Some 0)) \<le> 0" by (simp add: demo_defs)
  from cache_disabled [of "demo_client (Some 0)" "''prod''" "''spec''"
         "demo_env 1000 (Reply 200 (demo_token ''A'' (Some 3600))) (Reply 200 (JStr ''v1''))" "Some 0"] ttl
  show ?thesis by blast
qed

text \<open>
  C2 as stated fails for a client configured with a negative TTL: with the option -1 the
  first call stores the content, and a second call a second later returns the stored
  content without any request, although upstream would now answer \<open>v2\<close>.
\<close>

theorem negative_ttl_caches_counterexample:
  "(- 1 :: int) \<le> 0
   \<and> cacheTTL (demo_client (Some (- 1))) = 300000
   \<and> specCache (demo_fetched (Some (- 1))) (cacheKey ''prod'' ''spec'')
       = Some \<lparr> content = JStr ''v1'', expiry = 301003 \<rparr>
   \<and> getSpecContentWithCache (demo_fetched (Some (- 1))) ''prod'' ''spec''
         (demo_env 2000 NoReply (Reply 200 (JStr ''v2'')))
       = (Inr (JStr ''v1''), demo_fetched (Some (- 1)), [])"
  by (simp add: demo_fetched_eval demo_defs getSpecContentWithCache_def Let_def)

subsection \<open>The spec cache with a positive TTL\<close>

lemma cache_hit:
  assumes "cacheTTL s > 0" "specCache s (cacheKey p x) = Some en" "now_lookup e < expiry en"
  shows "getSpecContentWithCache s p x e = (Inr (content en), s, [])"
  using assms by (simp add: getSpecContentWithCache_def Let_def)

lemma cache_miss_unfold:
  assumes ttl: "cacheTTL s > 0"
    and miss: "\<forall>en. specCache s (cacheKey p x) = Some en \<longrightarrow> expiry en \<le> now_lookup e"
    and g: "getSpecContent s p x e = (r, s2, q)"
  shows "\<exists>s3. cacheTTL s3 = cacheTTL s \<and>
           getSpecContentWithCache s p x e =
             (case r of
                Inl err \<Rightarrow> (Inl err, s3, q)
              | Inr c \<Rightarrow>
                  (if valid_date (now_cached e + cacheTTL s) then Inr c else Inl RangeError,
                   s3\<lparr> specCache :=
                         (specCache s3)(cacheKey p x \<mapsto> \<lparr> content = c, expiry = now_cached e + cacheTTL s \<rparr>) \<rparr>,
                   q))"
proof -
  define s1 where "s1 = (if specCache s (cacheKey p x) \<noteq> None
                         then s\<lparr> specCache := (specCache s)((cacheKey p x) := None) \<rparr> else s)"
  obtain r1 s21 q1 where h: "getSpecContent s1 p x e = (r1, s21, q1)" by (cases "getSpecContent s1 p x e")
  have "fst (getSpecContent s1 p x e) = r" "snd (snd (getSpecContent s1 p x e)) = q"
    using g by (simp_all add: s1_def getSpecContent_cache_indep)
  with h have h': "r1 = r" "q1 = q" by simp_all
  have t: "cacheTTL s21 = cacheTTL s"
    using getSpecContent_keeps(2)[of s1 p x e] h by (simp add: s1_def)
  have nohit: "\<not> (case specCache s (cacheKey p x) of Some en \<Rightarrow> now_lookup e < expiry en | None \<Rightarrow> False)"
    using miss by (auto split: option.splits)
  have u: "getSpecContentWithCache s p x e =
      (case getSpecContent s1 p x e of
         (Inl err, s2, reqs) \<Rightarrow> (Inl err, s2, reqs)
       | (Inr c, s2, reqs) \<Rightarrow>
           if cacheTTL s2 > 0
           then (if valid_date (now_cached e + cacheTTL s2) then Inr c else Inl RangeError,
                 s2\<lparr> specCache :=
                       (specCache s2)(cacheKey p x \<mapsto> \<lparr> content = c, expiry = now_cached e + cacheTTL s2 \<rparr>) \<rparr>,
                 reqs)
           else (Inr c, s2, reqs))"
    using ttl nohit by (simp add: getSpecContentWithCache_def Let_def s1_def)
  have "getSpecContentWithCache s p x e =
             (case r of
                Inl err \<Rightarrow> (Inl err, s21, q)
              | Inr c \<Rightarrow>
                  (if valid_date (now_cached e + cacheTTL s) then Inr c else Inl RangeError,
                   s21\<lparr> specCache :=
                         (specCache s21)(cacheKey p x \<mapsto> \<lparr> content = c, expiry = now_cached e + cacheTTL s \<rparr>) \<rparr>,
                   q))"
    unfolding u h using h' t ttl by (simp split: sum.splits)
  with t show ?thesis by blast
qed

lemma cache_miss:
  assumes ttl: "cacheTTL s > 0"
    and miss: "\<forall>en. specCache s (cacheKey p x) = Some en \<longrightarrow> expiry en \<le> now_lookup e"
  shows "snd (snd (getSpecContentWithCache s p x e)) = snd (snd (getSpecContent s p x e))"
    and "fst (getSpecContent s p x e) = Inr c \<Longrightarrow>
           specCache (fst (snd (getSpecContentWithCache s p x e))) (cacheKey p x)
             = Some \<lparr> content = c, expiry = now_cached e + cacheTTL s \<rparr>"
    and "fst (getSpecContent s p x e) = Inr c \<Longrightarrow>
           fst (getSpecContentWithCache s p x e)
             = (if valid_date (now_cached e + cacheTTL s) then Inr c else Inl RangeError)"
proof -
  obtain r s2 q where g: "getSpecContent s p x e = (r, s2, q)" by (cases "getSpecContent s p x e")
  from cache_miss_unfold[OF ttl miss g] obtain s3 where
    u: "getSpecContentWithCache s p x e =
             (case r of
                Inl err \<Rightarrow> (Inl err, s3, q)
              | Inr c \<Rightarrow>
                  (if valid_date (now_cached e + cacheTTL s) then Inr c else Inl RangeError,
                   s3\<lparr> specCache :=
                         (specCache s3)(cacheKey p x \<mapsto> \<lparr> content = c, expiry = now_cached e + cacheTTL s \<rparr>) \<rparr>,
                   q))"
    by blast
  show "snd (snd (getSpecContentWithCache s p x e)) = snd (snd (getSpecContent s p x e))"
    unfolding u g by (simp split: sum.splits)
  show "fst (getSpecContent s p x e) = Inr c \<Longrightarrow>
           specCache (fst (snd (getSpecContentWithCache s p x e))) (cacheKey p x)
             = Some \<lparr> content = c, expiry = now_cached e + cacheTTL s \<rparr>"
    unfolding u g by simp
  show "fst (getSpecContent s p x e) = Inr c \<Longrightarrow>
           fst (getSpecContentWithCache s p x e)
             = (if valid_date (now_cached e + cacheTTL s) then Inr c else Inl RangeError)"
    unfolding u g by simp
qed

lemma getSpecContentWithCache_keeps_ttl:
  "cacheTTL (fst (snd (getSpecContentWithCache s p x e))) = cacheTTL s"
proof -
  obtain r1 s21 q1 where h: "getSpecContent (s\<lparr> specCache := (specCache s)((cacheKey p x) := None) \<rparr>) p x e = (r1, s21, q1)"
    by (cases "getSpecContent (s\<lparr> specCache := (specCache s)((cacheKey p x) := None) \<rparr>) p x e")
  obtain r s2 q where g: "getSpecContent s p x e = (r, s2, q)" by (cases "getSpecContent s p x e")
  have "cacheTTL s21 = cacheTTL s" "cacheTTL s2 = cacheTTL s"
    using getSpecContent_keeps(2)[of "s\<lparr> specCache := (specCache s)((cacheKey p x) := None) \<rparr>" p x e] h
      getSpecContent_keeps(2)[of s p x e] g by simp_all
  then show ?thesis
    by (simp add: getSpecContentWithCache_def Let_def h g split: sum.splits)
qed

text \<open>
  With a positive TTL: an entry for the key whose expiry is after the clock is returned
  as it is, with no request. Otherwise the call fetches (the requests of
  \<open>getSpecContent\<close>), and when the fetch succeeds the content is stored with
  expiry = clock at the store + TTL and exactly one request went to the MCP API; the
  content is returned when that expiry is a valid date. From there, every call for the
  key before that expiry returns the same content with no request, and every call at or
  after it fetches again.
\<close>

lemma cache_positive_ttl:
  assumes ttl: "0 < cacheTTL s"
    and s': "s' = fst (snd (getSpecContentWithCache s p x e))"
  shows
    "(\<forall>en. specCache s (cacheKey p x) = Some en \<and> now_lookup e < expiry en
        \<longrightarrow> getSpecContentWithCache s p x e = (Inr (content en), s, []))
     \<and> ((\<forall>en. specCache s (cacheKey p x) = Some en \<longrightarrow> expiry en \<le> now_lookup e) \<longrightarrow>
          snd (snd (getSpecContentWithCache s p x e)) = snd (snd (getSpecContent s p x e))
          \<and> (\<forall>c. fst (getSpecContent s p x e) = Inr c \<longrightarrow>
                (valid_date (now_cached e + cacheTTL s) \<longrightarrow> fst (getSpecContentWithCache s p x e) = Inr c)
                \<and> specCache s' (cacheKey p x) = Some \<lparr> content = c, expiry = now_cached e + cacheTTL s \<rparr>
                \<and> length (api_calls (snd (snd (getSpecContentWithCache s p x e)))) = 1
                \<and> (\<forall>e2 :: cache_env. now_lookup e2 < now_cached e + cacheTTL s \<longrightarrow>
                       getSpecContentWithCache s' p x e2 = (Inr c, s', []))
                \<and> (\<forall>e3 :: cache_env. now_cached e + cacheTTL s \<le> now_lookup e3 \<longrightarrow>
                       snd (snd (getSpecContentWithCache s' p x e3)) = snd (snd (getSpecContent s' p x e3))
                       \<and> (\<forall>c3. fst (getSpecContent s' p x e3) = Inr c3 \<longrightarrow>
                             length (api_calls (snd (snd (getSpecContentWithCache s' p x e3)))) = 1))))"
proof (intro conjI allI impI)
  fix en assume "specCache s (cacheKey p x) = Some en \<and> now_lookup e < expiry en"
  then show "getSpecContentWithCache s p x e = (Inr (content en), s, [])"
    using cache_hit[OF ttl] by blast
next
  assume miss: "\<forall>en. specCache s (cacheKey p x) = Some en \<longrightarrow> expiry en \<le> now_lookup e"
  show q: "snd (snd (getSpecContentWithCache s p x e)) = snd (snd (getSpecContent s p x e))"
    by (rule cache_miss(1)[OF ttl miss])
  fix c assume ok: "fst (getSpecContent s p x e) = Inr c"
  {
    assume "valid_date (now_cached e + cacheTTL s)"
    then show "fst (getSpecContentWithCache s p x e) = Inr c"
      using cache_miss(3)[OF ttl miss ok] by simp
  }
  show stored: "specCache s' (cacheKey p x) = Some \<lparr> content = c, expiry = now_cached e + cacheTTL s \<rparr>"
    unfolding s' by (rule cache_miss(2)[OF ttl miss ok])
  show "length (api_calls (snd (snd (getSpecContentWithCache s p x e)))) = 1"
    unfolding q by (rule getSpecContent_one_fetch[OF ok])
  have ttl': "0 < cacheTTL s'"
    unfolding s' using ttl by (simp add: getSpecContentWithCache_keeps_ttl)
  {
    fix e2 :: cache_env assume "now_lookup e2 < now_cached e + cacheTTL s"
    then show "getSpecContentWithCache s' p x e2 = (Inr c, s', [])"
      using cache_hit[OF ttl' stored, of e2] by simp
  }
  fix e3 :: cache_env assume late: "now_cached e + cacheTTL s \<le> now_lookup e3"
  have miss3: "\<forall>en. specCache s' (cacheKey p x) = Some en \<longrightarrow> expiry en \<le> now_lookup e3"
    using stored late by auto
  show q3: "snd (snd (getSpecContentWithCache s' p x e3)) = snd (snd (getSpecContent s' p x e3))"
    by (rule cache_miss(1)[OF ttl' miss3])
  fix c3 assume "fst (getSpecContent s' p x e3) = Inr c3"
  then show "length (api_calls (snd (snd (getSpecContentWithCache s' p x e3)))) = 1"
    unfolding q3 by (rule getSpecContent_one_fetch)
qed

text \<open>
  C6 fails on the code. A client is configured with a TTL of 8640000000000000 ms, the
  largest time a \<^verbatim>\<open>Date\<close> can hold. Its first call for a key fetches the
  content \<open>v1\<close> and stores it with the expiry clock + TTL. The line that logs the
  entry then formats that expiry with \<^verbatim>\<open>new Date(expiry).toISOString()\<close>,
  which throws a RangeError on a time beyond the range of \<^verbatim>\<open>Date\<close>: the call
  raises the RangeError instead of returning the content it has fetched and stored. A
  second call finds the entry and returns \<open>v1\<close>.
\<close>

theorem cache_store_raises:
  "0 < cacheTTL (demo_client (Some 8640000000000000))
   \<and> fst (getSpecContent (demo_client (Some 8640000000000000)) ''prod'' ''spec''
         (demo_env 1000 (Reply 200 (demo_token ''A'' (Some 3600))) (Reply 200 (JStr ''v1''))))
       = Inr (JStr ''v1'')
   \<and> fst (getSpecContentWithCache (demo_client (Some 8640000000000000)) ''prod'' ''spec''
         (demo_env 1000 (Reply 200 (demo_token ''A'' (Some 3600))) (Reply 200 (JStr ''v1''))))
       = Inl RangeError
   \<and> specCache (demo_fetched (Some 8640000000000000)) (cacheKey ''prod'' ''spec'')
       = Some \<lparr> content = JStr ''v1'', expiry = 8640000000001003 \<rparr>
   \<and> getSpecContentWithCache (demo_fetched (Some 8640000000000000)) ''prod'' ''spec''
         (demo_env 2000 NoReply (Reply 200 (JStr ''v2'')))
       = (Inr (JStr ''v1''), demo_fetched (Some 8640000000000000), [])"
  by (simp add: demo_fetched_eval demo_defs client_defs js_defs number_defs valid_date_def)

section \<open>Properties of the reference resolver\<close>










text \<open>
  Where a key names an inherited member, the path leaves the document: with an engine
  in which objects inherit \<^verbatim>\<open>constructor\<close> and arrays inherit
  \<^verbatim>\<open>__proto__\<close>, the resolver returns the constructor function, and the
  \<^verbatim>\<open>length\<close> of \<^verbatim>\<open>Array.prototype\<close>; a function on the way ends the
  path with \<^verbatim>\<open>null\<close>. The \<^verbatim>\<open>length\<close> of an array is a key like its
  indices.
\<close>

lemma resolveReference_inherited:
  "resolveReference demo_engine demo_doc (JStr ''#/b/constructor'')
     = Inr (Builtin (Builtin_function ''Object''))"
  "resolveReference demo_engine demo_doc (JStr ''#/list/__proto__/length'') = Inr (Node (JNum 0))"
  "resolveReference demo_engine demo_doc (JStr ''#/b/constructor/name'') = Inr (Node JNull)"
  "resolveReference demo_engine demo_doc (JStr ''#/list/length'') = Inr (Node (JNum 1))"
  "resolveReference demo_engine demo_doc (JStr ''#/list/0'') = Inr (Node (JStr ''x''))"
  by (simp_all add: resolveReference_def demo_doc_def startsWith_def typeof_object_def
        own_props_def unescape_segment_def member_def demo_engine_def demo_inherited_def
        demo_builtin_member_def value_of_def string_of_nat.simps)

section \<open>Properties of the tool executor\<close>

lemma demo_build: "build_request demo_engine demo_input = Inr demo_config"
  by (simp add: build_request_def demo_input_def demo_details_def demo_config_def js_defs
        place_parameter_def member_def value_string_def assign_property_def
        encodeURIComponent_def uri_unreserved_def is_alnum_def startsWith_def
        demo_engine_def demo_inherited_def string_of_nat.simps)

text \<open>
  C7. For a descriptor that is not a direct-return tool and whose request gets as far as
  axios: a response with a status outside 200..299 is returned, not raised, as a result
  with \<^verbatim>\<open>isError\<close> set whose text is the stringified response body (the
  numbers in the body being integers that JavaScript holds exactly, which it prints in
  decimal); no response at all, or a request axios could not set up, raises the axios
  error to the caller; in each of these cases one request was handed to axios. An
  exception while the request is built locally is raised as it is, with no request
  issued.
\<close>

theorem executor_error_classification:
  assumes direct: "\<not> truthy (isDirectReturnValue (in_executionDetails input))"
  shows "(\<forall>status body.
            (\<exists>config. build_request en input = Inr config) \<and> reply = Reply status body
              \<and> \<not> (200 \<le> status \<and> status < 300) \<and> safe_numbers body
            \<longrightarrow> fst (executeOpenApiTool en input reply)
                  = Inr \<lparr> text_content = Some (JStr (JSON_stringify body)), isError = True \<rparr>
                \<and> length (snd (executeOpenApiTool en input reply)) = 1)
         \<and> ((\<exists>config. build_request en input = Inr config) \<and> reply = NoReply
            \<longrightarrow> fst (executeOpenApiTool en input reply) = Inl (AxiosRejected None True)
                \<and> length (snd (executeOpenApiTool en input reply)) = 1)
         \<and> ((\<exists>config. build_request en input = Inr config) \<and> reply = NotSent
            \<longrightarrow> fst (executeOpenApiTool en input reply) = Inl (AxiosRejected None False)
                \<and> length (snd (executeOpenApiTool en input reply)) = 1)
         \<and> (\<forall>e. build_request en input = Inl e
            \<longrightarrow> executeOpenApiTool en input reply = (Inl e, []))"
  using direct by (auto simp add: executeOpenApiTool_def axios_def)

theorem executor_error_classification_witness:
  "\<not> truthy (isDirectReturnValue (in_executionDetails demo_input))
   \<and> build_request demo_engine demo_input = Inr demo_config
   \<and> safe_numbers (JObj [(''error'', JStr ''no such user''), (''code'', JNum 17)])
   \<and> fst (executeOpenApiTool demo_engine demo_input
            (Reply 404 (JObj [(''error'', JStr ''no such user''), (''code'', JNum 17)])))
       = Inr \<lparr> text_content =
                  Some (JStr (JSON_stringify (JObj [(''error'', JStr ''no such user''), (''code'', JNum 17)]))),
                isError = True \<rparr>
   \<and> length (snd (executeOpenApiTool demo_engine demo_input
            (Reply 404 (JObj [(''error'', JStr ''no such user''), (''code'', JNum 17)])))) = 1
   \<and> fst (executeOpenApiTool demo_engine demo_input NoReply) = Inl (AxiosRejected None True)
   \<and> fst (executeOpenApiTool demo_engine demo_input NotSent) = Inl (AxiosRejected None False)
   \<and> executeOpenApiTool demo_engine (demo_input\<lparr> in_parameters := None \<rparr>) NoReply = (Inl TypeError, [])"
proof -
  have d: "\<not> truthy (isDirectReturnValue (in_executionDetails demo_input))"
    by (simp add: demo_input_def demo_details_def truthy_def)
  have d': "\<not> truthy (isDirectReturnValue (in_executionDetails (demo_input\<lparr> in_parameters := None \<rparr>)))"
    by (simp add: demo_input_def demo_details_def truthy_def)
  have b': "build_request demo_engine (demo_input\<lparr> in_parameters := None \<rparr>) = Inl TypeError"
    by (simp add: build_request_def demo_input_def demo_details_def js_defs place_parameter_def)
  have s: "safe_numbers (JObj [(''error'', JStr ''no such user''), (''code'', JNum 17)])"
    by (simp add: safe_integer_def)
  have c: "\<exists>config. build_request demo_engine demo_input = Inr config"
    using demo_build by blast
  note E = executor_error_classification
  from E [OF d, of demo_engine "Reply 404 (JObj [(''error'', JStr ''no such user''), (''code'', JNum 17)])"] c s
  have 1: "fst (executeOpenApiTool demo_engine demo_input
            (Reply 404 (JObj [(''error'', JStr ''no such user''), (''code'', JNum 17)])))
       = Inr \<lparr> text_content =
                  Some (JStr (JSON_stringify (JObj [(''error'', JStr ''no such user''), (''code'', JNum 17)]))),
                isError = True \<rparr>
     \<and> length (snd (executeOpenApiTool demo_engine demo_input
            (Reply 404 (JObj [(''error'', JStr ''no such user''), (''code'', JNum 17)])))) = 1"
    by simp
  from E [OF d, of demo_engine NoReply] c
  have 2: "fst (executeOpenApiTool demo_engine demo_input NoReply) = Inl (AxiosRejected None True)" by simp
  from E [OF d, of demo_engine NotSent] c
  have 3: "fst (executeOpenApiTool demo_engine demo_input NotSent) = Inl (AxiosRejected None False)" by simp
  from E [OF d', of demo_engine NoReply] b'
  have 4: "executeOpenApiTool demo_engine (demo_input\<lparr> in_parameters := None \<rparr>) NoReply = (Inl TypeError, [])"
    by simp
  show ?thesis using d demo_build s 1 2 3 4 by simp
qed

section \<open>Properties of the sanitizer and of the tool names\<close>


lemma replace_non_word_word: "list_all is_word (replace_non_word s)"
  by (induction s rule: replace_non_word.induct) (simp_all add: is_word_def)














lemma alnum_kept: "is_alnum c \<Longrightarrow> c \<in> set (replace_non_word s) \<longleftrightarrow> c \<in> set s"
proof (induction s rule: replace_non_word.induct)
  case 1 then show ?case by simp
next
  case (2 d cs)
  show ?case
  proof (cases "is_word d")
    case True
    with 2 show ?thesis by simp
  next
    case False
    have nd: "c \<noteq> d" using False 2(3) by (auto simp add: is_word_def)
    have nu: "c \<noteq> CHR ''_''" using 2(3) by (auto simp add: is_alnum_def)
    have "c \<in> set (dropWhile (\<lambda>x. \<not> is_word x) cs) \<longleftrightarrow> c \<in> set cs"
    proof
      assume "c \<in> set (dropWhile (\<lambda>x. \<not> is_word x) cs)"
      then show "c \<in> set cs" by (rule set_dropWhileD)
    next
      assume m: "c \<in> set cs"
      have "set cs = set (takeWhile (\<lambda>x. \<not> is_word x) cs) \<union> set (dropWhile (\<lambda>x. \<not> is_word x) cs)"
        by (metis set_append takeWhile_dropWhile_id)
      moreover have "c \<notin> set (takeWhile (\<lambda>x. \<not> is_word x) cs)"
        using 2(3) by (auto simp add: is_word_def dest: set_takeWhileD)
      ultimately show "c \<in> set (dropWhile (\<lambda>x. \<not> is_word x) cs)" using m by blast
    qed
    with 2(2)[OF False 2(3)] False nd nu show ?thesis by simp
  qed
qed

lemma trim_empty: "trim_underscores s = [] \<longleftrightarrow> (\<forall>c \<in> set s. c = CHR ''_'')"
proof -
  define a where "a = dropWhile (\<lambda>x. x = CHR ''_'') s"
  have 1: "trim_underscores s = [] \<longleftrightarrow> (\<forall>x \<in> set a. x = CHR ''_'')"
    by (simp add: trim_underscores_def dropWhile_eq_Nil_conv a_def)
  have 2: "(\<forall>x \<in> set a. x = CHR ''_'') \<longleftrightarrow> a = []"
  proof
    assume all: "\<forall>x \<in> set a. x = CHR ''_''"
    show "a = []"
    proof (rule ccontr)
      assume ne: "a \<noteq> []"
      then have "hd a \<in> set a" by (rule hd_in_set)
      with all have "hd a = CHR ''_''" by blast
      moreover have "hd a \<noteq> CHR ''_''"
        using ne hd_dropWhile[of "\<lambda>x. x = CHR ''_''" s] unfolding a_def by blast
      ultimately show False by blast
    qed
  next
    assume "a = []" then show "\<forall>x \<in> set a. x = CHR ''_''" by simp
  qed
  have 3: "a = [] \<longleftrightarrow> (\<forall>c \<in> set s. c = CHR ''_'')"
    unfolding a_def by (simp add: dropWhile_eq_Nil_conv)
  from 1 2 3 show ?thesis by blast
qed

lemma sanitize_empty: "sanitizeForMethodName s = [] \<longleftrightarrow> \<not> list_ex is_alnum s"
proof -
  have w: "list_all is_word (replace_non_word s)" by (rule replace_non_word_word)
  have "(\<forall>c \<in> set (replace_non_word s). c = CHR ''_'') \<longleftrightarrow> (\<forall>c \<in> set s. \<not> is_alnum c)"
  proof
    assume a: "\<forall>c \<in> set (replace_non_word s). c = CHR ''_''"
    show "\<forall>c \<in> set s. \<not> is_alnum c"
    proof
      fix c assume c: "c \<in> set s"
      show "\<not> is_alnum c"
      proof
        assume al: "is_alnum c"
        with c alnum_kept have "c \<in> set (replace_non_word s)" by blast
        with a have "c = CHR ''_''" by blast
        with al show False by (simp add: is_alnum_def)
      qed
    qed
  next
    assume a: "\<forall>c \<in> set s. \<not> is_alnum c"
    show "\<forall>c \<in> set (replace_non_word s). c = CHR ''_''"
    proof
      fix c assume c: "c \<in> set (replace_non_word s)"
      with w have iw: "is_word c" by (simp add: list_all_iff)
      show "c = CHR ''_''"
      proof (rule ccontr)
        assume "c \<noteq> CHR ''_''"
        with iw have al: "is_alnum c" by (simp add: is_word_def)
        with c alnum_kept have "c \<in> set s" by blast
        with a al show False by blast
      qed
    qed
  qed
  then show ?thesis by (simp add: sanitizeForMethodName_def trim_empty list_ex_iff)
qed






lemma operations_of_mem:
  assumes "(apiPth, pathItem, m, op) \<in> set (operations_of spec)"
  shows "m \<in> set HttpMethods" "js_prop pathItem m = Some op" "truthy (Some op)"
  using assms
  by (auto simp add: operations_of_def split: option.splits if_splits)


lemma verb_has_letter: "m \<in> set HttpMethods \<Longrightarrow> list_ex is_alnum (m @ rest)"
  by (auto simp add: HttpMethods_def is_alnum_def)

lemma safeMethodNameBase_verb:
  assumes "safeMethodNameBase op m p = Inr base" "m \<in> set HttpMethods"
    "\<not> truthy (js_prop op ''operationId'')"
  shows "base \<noteq> []"
proof -
  from assms(1,3) have "base = sanitizeForMethodName (m @ ''_'' @ p)"
    by (simp add: safeMethodNameBase_def)
  with verb_has_letter[OF assms(2), of "''_'' @ p"] show ?thesis
    by (simp only: sanitize_empty) simp
qed


lemmas resolver_defs = resolveReference_def startsWith_def unescape_segment_def member_def value_of_def
  truthy_value_def
lemmas mapper_defs = unknown_type_def builtin_type_def assign_property_def unwrap_parameter_def no_schema_type_def optional_if_def circular_type_def
  unresolved_type_def resolved_type_def js_or_def finish_def object_type_def property_type_def
  required_includes_def typeof_object_opt_def type_array_def inferred_type_def string_type_def
  when_do_def when_defined_def instanceof_ZodNull_def instanceof_ZodUnion_def union_options_def
  array_type_def type_array_result_def with_type_def
lemmas compiler_defs = generateOpenApiTools_def compile_spec_def compile_operation_def
  operations_of_def HttpMethods_def global_security_def operation_security_def
  securitySchemes_of_def scan_requirements.simps scan_schemes.simps check_scheme_def
  greater_than_zero_def safeMethodNameBase_def dynamicMethodName_def dynamicToolName_def
  dynamicDescription_def allParams_def add_parameter_def add_request_body_def parameter_name_def
  parameter_type_def number_defs
  sanitizeForMethodName_def trim_underscores_def is_word_def is_alnum_def toUpperCase_def
lemmas engine_defs = demo_engine_def demo_inherited_def demo_builtin_member_def demo_number_def
lemmas users_defs = users_tools_def users_doc_def inherit_doc_def users_doc_of_def users_get_def
  users_put_def users_delete_def


lemma users_urls:
  "map (\<lambda>t. openIdConnectUrl (t_executionDetails t)) users_tools
     = [Some (JStr ''https://idp/config''), None, None]"
  by (simp add: compiler_defs js_defs users_defs mapper_defs resolver_defs engine_defs
        mapOpenApiTypeToZod.simps)








section \<open>Properties of the security classifier\<close>










end
